theory Spec2Isabelle
  imports Complex_Main
begin

section \<open>JavaScript values\<close>

text \<open>
  A JavaScript string is a sequence of UTF-16 code units; \<open>split\<close>, \<open>endsWith\<close>
  and \<open>includes\<close> work on code units. ASCII literals of the source are written
  \<open>str ''...''\<close>; the user-interface messages in Chinese are given by their code units.
\<close>

type_synonym jsstring = "nat list"

definition str :: "string \<Rightarrow> jsstring" where
  "str s = map of_char s"

text \<open>\<open>s.split(c)\<close> for a separator \<open>c\<close> of one code unit (the source splits on
  \<open>'|'\<close> only): the pieces between the occurrences of \<open>c\<close>, the empty string giving
  one empty piece.\<close>

fun split_on :: "nat \<Rightarrow> jsstring \<Rightarrow> jsstring list" where
  "split_on c [] = [[]]"
| "split_on c (x # xs) =
     (if x = c then [] # split_on c xs
      else (case split_on c xs of
              [] \<Rightarrow> [[x]]
            | w # ws \<Rightarrow> (x # w) # ws))"

text \<open>\<open>pieces.join(c)\<close>, used to characterise \<open>split_on\<close>.\<close>

fun join_with :: "nat \<Rightarrow> jsstring list \<Rightarrow> jsstring" where
  "join_with c [] = []"
| "join_with c [w] = w"
| "join_with c (w # v # ws) = w @ c # join_with c (v # ws)"

definition bar :: nat where
  "bar = 0x7C"

text \<open>\<open>s.endsWith(suf)\<close>.\<close>

definition endsWith :: "jsstring \<Rightarrow> jsstring \<Rightarrow> bool" where
  "endsWith s suf =
     (length suf \<le> length s \<and> drop (length s - length suf) s = suf)"

text \<open>The decimal digits of a number, as a template literal prints
  \<open>response.status\<close>.\<close>

fun show_nat :: "nat \<Rightarrow> jsstring" where
  "show_nat n = (if n < 10 then [48 + n] else show_nat (n div 10) @ [48 + n mod 10])"

declare show_nat.simps [simp del]

text \<open>
  Values read from JSON responses and held in component state. An object is the list
  of its properties in property order; the objects the model builds have distinct keys.
  A number is a real number: the pages pass numbers on and never compute with them.
\<close>

datatype json =
    JUndefined
  | JNull
  | JBool bool
  | JNum real
  | JStr jsstring
  | JArr "json list"
  | JObj "(jsstring \<times> json) list"

text \<open>Reading a property of \<open>null\<close> or \<open>undefined\<close> throws; callers test \<open>nullish\<close>
  first. On any other value \<open>v.k\<close> is the property, or \<open>undefined\<close> (none of the keys
  the source reads is a built-in property of a string, number, boolean or array).\<close>

definition nullish :: "json \<Rightarrow> bool" where
  "nullish v = (v = JNull \<or> v = JUndefined)"

definition get_prop :: "json \<Rightarrow> jsstring \<Rightarrow> json" where
  "get_prop v k =
     (case v of
        JObj kvs \<Rightarrow> (case map_of kvs k of Some x \<Rightarrow> x | None \<Rightarrow> JUndefined)
      | _ \<Rightarrow> JUndefined)"

text \<open>JavaScript truthiness.\<close>

fun truthy :: "json \<Rightarrow> bool" where
  "truthy JUndefined = False"
| "truthy JNull = False"
| "truthy (JBool b) = b"
| "truthy (JNum x) = (x \<noteq> 0)"
| "truthy (JStr s) = (s \<noteq> [])"
| "truthy (JArr xs) = True"
| "truthy (JObj kvs) = True"

text \<open>\<open>Array.isArray\<close>.\<close>

fun isArray :: "json \<Rightarrow> bool" where
  "isArray (JArr xs) = True"
| "isArray v = False"

text \<open>Assigning a property: an existing key keeps its place and takes the new value
  (so a key written twice in an object literal appears once), a new key goes last.\<close>

fun obj_set :: "jsstring \<Rightarrow> json \<Rightarrow> (jsstring \<times> json) list \<Rightarrow> (jsstring \<times> json) list" where
  "obj_set k v [] = [(k, v)]"
| "obj_set k v ((k', v') # kvs) =
     (if k = k' then (k, v) # kvs else (k', v') # obj_set k v kvs)"

definition object_literal :: "(jsstring \<times> json) list \<Rightarrow> (jsstring \<times> json) list" where
  "object_literal kvs = foldl (\<lambda>obj (k, v). obj_set k v obj) [] kvs"

text \<open>The own enumerable properties an object spread \<open>{...v}\<close> copies.\<close>

definition spread :: "json \<Rightarrow> (jsstring \<times> json) list" where
  "spread v =
     (case v of
        JObj kvs \<Rightarrow> kvs
      | JArr xs \<Rightarrow> map (\<lambda>i. (show_nat i, xs ! i)) [0..<length xs]
      | JStr s \<Rightarrow> map (\<lambda>i. (show_nat i, JStr [s ! i])) [0..<length s]
      | _ \<Rightarrow> [])"

text \<open>\<open>v[0]\<close> for a value that is neither \<open>null\<close> nor \<open>undefined\<close>: the first
  element of an array, the first code unit of a string, the property \<open>0\<close> of an
  object.\<close>

definition index0 :: "json \<Rightarrow> json" where
  "index0 v =
     (case v of
        JArr xs \<Rightarrow> (case xs of [] \<Rightarrow> JUndefined | x # rest \<Rightarrow> x)
      | JStr s \<Rightarrow> (case s of [] \<Rightarrow> JUndefined | c # rest \<Rightarrow> JStr [c])
      | JObj kvs \<Rightarrow> get_prop (JObj kvs) (str ''0'')
      | _ \<Rightarrow> JUndefined)"

text \<open>
  Whether a value converts to a string (in a template literal, in \<open>new Error(v)\<close>, in
  \<open>new Date(v)\<close>) without a TypeError. A value read from JSON holds no function, so an
  object that has a property \<open>toString\<close> of its own cannot be converted; any other
  object is \<open>[object Object]\<close>. An array converts by joining its elements, of which
  \<open>null\<close> and \<open>undefined\<close> count as empty and the others are converted in turn.
\<close>

fun convertible :: "json \<Rightarrow> bool" where
  "convertible (JObj kvs) = (str ''toString'' \<notin> set (map fst kvs))"
| "convertible (JArr xs) =
     list_all (\<lambda>v. v = JNull \<or> v = JUndefined \<or> convertible v) xs"
| "convertible v = True"

text \<open>Whether React accepts a value as a child \<open>{v}\<close> of an element: an object is
  refused with an error, an array is accepted when each of its elements is, and every
  other value is (\<open>null\<close>, \<open>undefined\<close> and booleans show nothing).\<close>

fun renderable :: "json \<Rightarrow> bool" where
  "renderable (JObj kvs) = False"
| "renderable (JArr xs) = list_all renderable xs"
| "renderable v = True"

text \<open>\<open>Promise.all\<close> over promises that are settled in list order: the list of the
  results, or the first rejection.\<close>

fun promise_all :: "('e + 'a) list \<Rightarrow> 'e + 'a list" where
  "promise_all [] = Inr []"
| "promise_all (Inl e # ps) = Inl e"
| "promise_all (Inr x # ps) =
     (case promise_all ps of Inl e \<Rightarrow> Inl e | Inr xs \<Rightarrow> Inr (x # xs))"

section \<open>The browser: network, dialogs, engine texts\<close>

record jsfile =
  file_name :: jsstring
  file_data :: "nat list"

text \<open>A value appended to a \<open>FormData\<close>: a file, a value (converted to a string by
  \<open>append\<close>), or the text \<open>JSON.stringify\<close> makes of a value.\<close>

datatype form_value = FFile jsfile | FValue json | FJson json

text \<open>
  The requests the three pages issue; every URL starts with \<open>apiBaseUrl\<close>.
  \<^item> \<open>GET_documents t\<close>: \<open>GET /documents?type=t\<close>
  \<^item> \<open>GET_document_chunked n\<close>: \<open>GET /documents/${n}?type=chunked\<close>
  \<^item> \<open>GET_document_json n\<close>: \<open>GET /documents/${n}.json\<close>
  \<^item> \<open>DELETE_document_chunked n\<close>: \<open>DELETE /documents/${n}?type=chunked\<close>
  \<^item> \<open>DELETE_document n\<close>: \<open>DELETE /documents/${n}\<close>
  \<^item> \<open>POST_chunk b\<close>: \<open>POST /chunk\<close> with the JSON text of the object \<open>b\<close>
  \<^item> \<open>POST_load f\<close>, \<open>POST_parse f\<close>: \<open>POST /load\<close>, \<open>POST /parse\<close> with the form \<open>f\<close>
  \<^item> \<open>GET_parsed_docs\<close>: \<open>GET /parsed-docs\<close>
  \<^item> \<open>GET_parsed_doc n\<close>, \<open>DELETE_parsed_doc n\<close>: \<open>GET\<close>, \<open>DELETE /parsed-docs/${n}\<close>
\<close>

datatype request =
    GET_documents jsstring
  | GET_document_chunked json
  | GET_document_json json
  | DELETE_document_chunked jsstring
  | DELETE_document jsstring
  | POST_chunk "(jsstring \<times> json) list"
  | POST_load "(jsstring \<times> form_value) list"
  | POST_parse "(jsstring \<times> form_value) list"
  | GET_parsed_docs
  | GET_parsed_doc jsstring
  | DELETE_parsed_doc jsstring

text \<open>A response: its status, and what \<open>response.json()\<close> resolves to (\<open>Inr\<close>) or
  the message of the error it rejects with (\<open>Inl\<close>).\<close>

record response =
  resp_status :: nat
  resp_json :: "jsstring + json"

text \<open>\<open>response.ok\<close>: the status is in the range 200-299.\<close>

definition ok :: "response \<Rightarrow> bool" where
  "ok r = (200 \<le> resp_status r \<and> resp_status r \<le> 299)"

text \<open>
  What the page's environment decides during one run of a handler:
  \<^item> \<open>fetch\<close>: the outcome of each request, a response (\<open>Inr\<close>) or the message of the
    error \<open>fetch\<close> rejects with (\<open>Inl\<close>);
  \<^item> \<open>confirm\<close>: the operator's answer to \<open>window.confirm\<close>;
  \<^item> \<open>nullRead v k\<close>: the message of the TypeError thrown by reading property \<open>k\<close> of
    \<open>v\<close>, for \<open>v\<close> \<open>null\<close> or \<open>undefined\<close> (the text is the engine's);
  \<^item> \<open>toPrimitiveError\<close>: the message of the TypeError thrown when a value cannot be
    converted to a string (the text is the engine's);
  \<^item> \<open>numberText\<close>: the string a number converts to;
  \<^item> \<open>lowerCase\<close>: \<open>String.prototype.toLowerCase\<close>, whose tables are the engine's.
\<close>

record browser =
  fetch :: "request \<Rightarrow> jsstring + response"
  confirm :: "jsstring \<Rightarrow> bool"
  nullRead :: "json \<Rightarrow> jsstring \<Rightarrow> jsstring"
  toPrimitiveError :: jsstring
  numberText :: "real \<Rightarrow> jsstring"
  lowerCase :: "jsstring \<Rightarrow> jsstring"

text \<open>What a handler does to the outside, in order. Console output is not recorded.\<close>

datatype event = Fetch request | Confirm jsstring | Alert jsstring

definition http_error :: "nat \<Rightarrow> jsstring" where
  "http_error n = str ''HTTP error! status: '' @ show_nat n"

text \<open>A request fails when \<open>fetch\<close> rejects or the response is not \<open>ok\<close>.\<close>

definition request_fails :: "browser \<Rightarrow> request \<Rightarrow> bool" where
  "request_fails br req = (case fetch br req of Inl m \<Rightarrow> True | Inr r \<Rightarrow> \<not> ok r)"

section \<open>ChunkFile.jsx\<close>

subsection \<open>State\<close>

record chunk_state =
  loadedDocuments :: json
  selectedDoc_C :: jsstring
  chunkingOption :: jsstring
  chunkSize :: real
  chunkOverlap :: real
  minChunkSize :: real
  maxChunkSize :: real
  semanticThreshold :: real
  chunks :: json
  status_C :: jsstring
  activeTab_C :: jsstring
  processingStatus :: jsstring
  chunkedDocuments :: "json list"
  showAdvancedOptions :: bool
  mergeEmptyPages :: bool
  mergeShortPages :: bool
  maxPageWords :: real
  minPageWords :: real
  paragraphSeparator :: jsstring
  customParagraphSeparator :: jsstring
  sentenceSeparator :: jsstring
  customSentenceSeparator :: jsstring
  keepSeparator :: bool
  semanticChunkSize :: real
  semanticChunkOverlap :: real
  semanticSentenceSeparator :: jsstring
  semanticCustomSentenceSeparator :: jsstring
  semanticKeepSeparator :: bool
  semanticMinChunkSize :: real
  semanticMaxChunkSize :: real
  hybridMaxChunkSize :: real
  hybridMinChunkSize :: real
  hybridParagraphSeparator :: jsstring
  hybridCustomParagraphSeparator :: jsstring
  hybridSentenceSeparator :: jsstring
  hybridCustomSentenceSeparator :: jsstring
  hybridChunkSize :: real
  hybridChunkOverlap :: real
  hybridKeepSeparator :: bool
  hybridSemanticThreshold :: real

text \<open>The preset \<open>'\<dots>|\<dots>|\<dots>'\<close> of the Chinese full stop, exclamation mark and question
  mark (U+3002, U+FF01, U+FF1F).\<close>

definition zh_sentence_preset :: jsstring where
  "zh_sentence_preset = [0x3002, 0x7C, 0xFF01, 0x7C, 0xFF1F]"

text \<open>The arguments of the \<open>useState\<close> calls. The source writes the default of
  \<open>paragraphSeparator\<close> as \<open>'\\n\\n'\<close> (backslash, n, backslash, n) and the default of
  \<open>hybridParagraphSeparator\<close> as \<open>'\n\n'\<close> (two line feeds).\<close>

definition chunk_initial :: chunk_state where
  "chunk_initial = \<lparr>
     loadedDocuments = JArr [],
     selectedDoc_C = [],
     chunkingOption = str ''by_pages'',
     chunkSize = 1000,
     chunkOverlap = 200,
     minChunkSize = 100,
     maxChunkSize = 5000,
     semanticThreshold = 0.7,
     chunks = JNull,
     status_C = [],
     activeTab_C = str ''chunks'',
     processingStatus = [],
     chunkedDocuments = [],
     showAdvancedOptions = False,
     mergeEmptyPages = False,
     mergeShortPages = False,
     maxPageWords = 2000,
     minPageWords = 50,
     paragraphSeparator = [0x5C, 0x6E, 0x5C, 0x6E],
     customParagraphSeparator = [],
     sentenceSeparator = zh_sentence_preset,
     customSentenceSeparator = [],
     keepSeparator = False,
     semanticChunkSize = 1000,
     semanticChunkOverlap = 200,
     semanticSentenceSeparator = zh_sentence_preset,
     semanticCustomSentenceSeparator = [],
     semanticKeepSeparator = False,
     semanticMinChunkSize = 1,
     semanticMaxChunkSize = 5000,
     hybridMaxChunkSize = 5000,
     hybridMinChunkSize = 1,
     hybridParagraphSeparator = [0x0A, 0x0A],
     hybridCustomParagraphSeparator = [],
     hybridSentenceSeparator = zh_sentence_preset,
     hybridCustomSentenceSeparator = [],
     hybridChunkSize = 1000,
     hybridChunkOverlap = 200,
     hybridKeepSeparator = False,
     hybridSemanticThreshold = 0.7 \<rparr>"

subsection \<open>The request body of \<open>handleChunk\<close>\<close>

definition docId :: "chunk_state \<Rightarrow> jsstring" where
  "docId s =
     (if endsWith (selectedDoc_C s) (str ''.json'') then selectedDoc_C s
      else selectedDoc_C s @ str ''.json'')"

definition JStrs :: "jsstring list \<Rightarrow> json" where
  "JStrs ws = JArr (map JStr ws)"

text \<open>The object literal passed to \<open>JSON.stringify\<close>, property by property in the
  order of the source (\<open>semantic_threshold\<close> is written twice there).\<close>

definition chunk_body :: "chunk_state \<Rightarrow> (jsstring \<times> json) list" where
  "chunk_body s = object_literal
     [(str ''doc_id'', JStr (docId s)),
      (str ''chunking_option'', JStr (chunkingOption s)),
      (str ''chunk_size'', JNum (chunkSize s)),
      (str ''chunk_overlap'', JNum (chunkOverlap s)),
      (str ''min_chunk_size'', JNum (minChunkSize s)),
      (str ''max_chunk_size'', JNum (maxChunkSize s)),
      (str ''semantic_threshold'', JNum (semanticThreshold s)),
      (str ''merge_empty_pages'', JBool (mergeEmptyPages s)),
      (str ''merge_short_pages'', JBool (mergeShortPages s)),
      (str ''max_page_words'', JNum (maxPageWords s)),
      (str ''min_page_words'', JNum (minPageWords s)),
      (str ''paragraph_separator'',
         JStr (if paragraphSeparator s = str ''custom'' then customParagraphSeparator s
               else paragraphSeparator s)),
      (str ''sentence_separators'',
         JStrs (if sentenceSeparator s = str ''custom''
                then split_on bar (customSentenceSeparator s)
                else split_on bar (sentenceSeparator s))),
      (str ''keep_separator'', JBool (keepSeparator s)),
      (str ''semantic_chunk_size'', JNum (semanticChunkSize s)),
      (str ''semantic_chunk_overlap'', JNum (semanticChunkOverlap s)),
      (str ''semantic_sentence_separators'',
         JStrs (if semanticSentenceSeparator s = str ''custom''
                then split_on bar (semanticCustomSentenceSeparator s)
                else split_on bar (semanticSentenceSeparator s))),
      (str ''semantic_keep_separator'', JBool (semanticKeepSeparator s)),
      (str ''semantic_threshold'', JNum (semanticThreshold s)),
      (str ''semantic_min_chunk_size'', JNum (semanticMinChunkSize s)),
      (str ''semantic_max_chunk_size'', JNum (semanticMaxChunkSize s)),
      (str ''hybrid_max_chunk_size'', JNum (hybridMaxChunkSize s)),
      (str ''hybrid_min_chunk_size'', JNum (hybridMinChunkSize s)),
      (str ''hybrid_paragraph_separator'',
         JStr (if hybridParagraphSeparator s = str ''custom''
               then hybridCustomParagraphSeparator s
               else hybridParagraphSeparator s)),
      (str ''hybrid_sentence_separators'',
         JStrs (if hybridSentenceSeparator s = str ''custom''
                then split_on bar (hybridCustomSentenceSeparator s)
                else split_on bar (hybridSentenceSeparator s))),
      (str ''hybrid_chunk_size'', JNum (hybridChunkSize s)),
      (str ''hybrid_chunk_overlap'', JNum (hybridChunkOverlap s)),
      (str ''hybrid_keep_separator'', JBool (hybridKeepSeparator s)),
      (str ''hybrid_semantic_threshold'', JNum (hybridSemanticThreshold s))]"

subsection \<open>\<open>fetchLoadedDocuments\<close>\<close>

text \<open>
  The asynchronous callback mapped over the chunked documents: one detail request per
  document. It resolves to the document itself when the request or the reading of its
  answer fails, and to the document with the details added otherwise. Its \<open>catch\<close>
  block logs \<open>doc.name\<close> in a template literal, so an error of reading or converting
  \<open>doc.name\<close>, thrown before the request is made, is thrown again there and the
  callback rejects. The result is the outcome and the request issued, if any.
\<close>

definition chunked_detail :: "browser \<Rightarrow> json \<Rightarrow> (jsstring + json) \<times> event list" where
  "chunked_detail br doc =
     (if nullish doc then (Inl (nullRead br doc (str ''name'')), [])
      else if \<not> convertible (get_prop doc (str ''name'')) then (Inl (toPrimitiveError br), [])
      else
        let req = GET_document_chunked (get_prop doc (str ''name'')) in
        (case fetch br req of
           Inl m \<Rightarrow> (Inr doc, [Fetch req])
         | Inr r \<Rightarrow>
             if \<not> ok r then (Inr doc, [Fetch req])
             else (case resp_json r of
                     Inl m \<Rightarrow> (Inr doc, [Fetch req])
                   | Inr detailData \<Rightarrow>
                       if nullish detailData then (Inr doc, [Fetch req])
                       else
                         (Inr (JObj (object_literal (spread doc @
                            [(str ''total_pages'', get_prop detailData (str ''total_pages'')),
                             (str ''total_chunks'', get_prop detailData (str ''total_chunks'')),
                             (str ''chunking_method'', get_prop detailData (str ''chunking_method'')),
                             (str ''chunking_config'', get_prop detailData (str ''chunking_config'')),
                             (str ''timestamp'', get_prop detailData (str ''timestamp''))]))),
                          [Fetch req]))))"

definition fetch_error_C :: "chunk_state \<Rightarrow> jsstring \<Rightarrow> chunk_state" where
  "fetch_error_C s m = s\<lparr>processingStatus := str ''Error fetching documents: '' @ m\<rparr>"

text \<open>Every callback has made its request, or has rejected, before \<open>Promise.all\<close> is
  awaited; one rejection sends the function to its \<open>catch\<close> block and the list is not
  stored.\<close>

definition fetchLoadedDocuments :: "browser \<Rightarrow> chunk_state \<Rightarrow> chunk_state \<times> event list" where
  "fetchLoadedDocuments br s =
     (let r1 = GET_documents (str ''loaded''); r2 = GET_documents (str ''chunked'') in
      case fetch br r1 of
        Inl m \<Rightarrow> (fetch_error_C s m, [Fetch r1])
      | Inr response \<Rightarrow>
          (case resp_json response of
             Inl m \<Rightarrow> (fetch_error_C s m, [Fetch r1])
           | Inr data \<Rightarrow>
               if nullish data
               then (fetch_error_C s (nullRead br data (str ''documents'')), [Fetch r1])
               else
                 let s1 = s\<lparr>loadedDocuments := get_prop data (str ''documents'')\<rparr> in
                 (case fetch br r2 of
                    Inl m \<Rightarrow> (fetch_error_C s1 m, [Fetch r1, Fetch r2])
                  | Inr chunkedResponse \<Rightarrow>
                      if \<not> ok chunkedResponse
                      then (fetch_error_C s1 (http_error (resp_status chunkedResponse)),
                            [Fetch r1, Fetch r2])
                      else
                        (case resp_json chunkedResponse of
                           Inl m \<Rightarrow> (fetch_error_C s1 m, [Fetch r1, Fetch r2])
                         | Inr chunkedData \<Rightarrow>
                             if nullish chunkedData
                             then (fetch_error_C s1
                                     (nullRead br chunkedData (str ''documents'')),
                                   [Fetch r1, Fetch r2])
                             else
                               (case get_prop chunkedData (str ''documents'') of
                                  JArr docs \<Rightarrow>
                                    let details = map (chunked_detail br) docs;
                                        evs = [Fetch r1, Fetch r2] @ concat (map snd details)
                                    in
                                    (case promise_all (map fst details) of
                                       Inl m \<Rightarrow> (fetch_error_C s1 m, evs)
                                     | Inr chunkedDocsWithDetails \<Rightarrow>
                                         (s1\<lparr>chunkedDocuments := chunkedDocsWithDetails\<rparr>,
                                          evs))
                                | _ \<Rightarrow> (s1, [Fetch r1, Fetch r2]))))))"

subsection \<open>\<open>handleChunk\<close>\<close>

text \<open>The messages: U+8BF7 U+9009 U+62E9 U+6587 U+6863 U+548C U+5206 U+5757 U+65B9
  U+6CD5 (asks to select a document and a chunking method), the "processing" and
  "chunking done" notices, and the prefix U+9519 U+8BEF \<open>': '\<close> ("error") of a failure.\<close>

definition msg_select_doc_and_method :: jsstring where
  "msg_select_doc_and_method =
     [0x8BF7, 0x9009, 0x62E9, 0x6587, 0x6863, 0x548C, 0x5206, 0x5757, 0x65B9, 0x6CD5]"

definition msg_processing :: jsstring where
  "msg_processing = [0x5904, 0x7406, 0x4E2D, 0x2E, 0x2E, 0x2E]"

definition msg_chunk_done :: jsstring where
  "msg_chunk_done = [0x5206, 0x5757, 0x5B8C, 0x6210, 0xFF01]"

definition msg_error :: jsstring where
  "msg_error = [0x9519, 0x8BEF, 0x3A, 0x20]"

definition chunk_failed :: "chunk_state \<Rightarrow> jsstring \<Rightarrow> chunk_state" where
  "chunk_failed s m = s\<lparr>status_C := msg_error @ m\<rparr>"

definition handleChunk :: "browser \<Rightarrow> chunk_state \<Rightarrow> chunk_state \<times> event list" where
  "handleChunk br s =
     (if selectedDoc_C s = [] \<or> chunkingOption s = []
      then (s\<lparr>status_C := msg_select_doc_and_method\<rparr>, [])
      else
        let s1 = s\<lparr>status_C := msg_processing, chunks := JNull\<rparr>;
            req = POST_chunk (chunk_body s)
        in
        (case fetch br req of
           Inl m \<Rightarrow> (chunk_failed s1 m, [Fetch req])
         | Inr response \<Rightarrow>
             if \<not> ok response
             then (chunk_failed s1 (http_error (resp_status response)), [Fetch req])
             else
               (case resp_json response of
                  Inl m \<Rightarrow> (chunk_failed s1 m, [Fetch req])
                | Inr data \<Rightarrow>
                    if nullish data
                    then (chunk_failed s1 (nullRead br data (str ''filename'')), [Fetch req])
                    else
                      let s2 = s1\<lparr>chunks := JObj
                                 [(str ''filename'', get_prop data (str ''filename'')),
                                  (str ''total_pages'', get_prop data (str ''total_pages'')),
                                  (str ''total_chunks'', get_prop data (str ''total_chunks'')),
                                  (str ''loading_method'', get_prop data (str ''loading_method'')),
                                  (str ''chunking_method'', get_prop data (str ''chunking_method'')),
                                  (str ''chunking_config'', get_prop data (str ''chunking_config'')),
                                  (str ''timestamp'', get_prop data (str ''timestamp'')),
                                  (str ''chunks'', get_prop data (str ''chunks''))],
                                status_C := msg_chunk_done\<rparr>;
                          (s3, evs) = fetchLoadedDocuments br s2
                      in (s3, Fetch req # evs))))"

subsection \<open>The selects of the left panel\<close>

text \<open>The options of the chunking-method select.\<close>

definition chunking_methods :: "jsstring list" where
  "chunking_methods =
     [str ''by_pages'', str ''fixed_size'', str ''by_paragraphs'',
      str ''by_sentences'', str ''semantic'', str ''hybrid'']"

text \<open>\<open>onChange={(e) => setChunkingOption(e.target.value)}\<close> and
  \<open>onChange={(e) => setSelectedDoc(e.target.value)}\<close>.\<close>

definition setChunkingOption :: "jsstring \<Rightarrow> chunk_state \<Rightarrow> chunk_state" where
  "setChunkingOption v s = s\<lparr>chunkingOption := v\<rparr>"

definition setSelectedDoc_C :: "jsstring \<Rightarrow> chunk_state \<Rightarrow> chunk_state" where
  "setSelectedDoc_C v s = s\<lparr>selectedDoc_C := v\<rparr>"

subsection \<open>Reading the request body\<close>

text \<open>The value the body of the \<open>/chunk\<close> request carries under a key.\<close>

definition body_lookup :: "chunk_state \<Rightarrow> jsstring \<Rightarrow> json" where
  "body_lookup s k = get_prop (JObj (chunk_body s)) k"

subsection \<open>The parameter fields and the method each one is edited under\<close>

text \<open>The state variables that hold chunking parameters.\<close>

datatype field =
    F_chunkSize | F_chunkOverlap | F_minChunkSize | F_maxChunkSize | F_semanticThreshold
  | F_mergeEmptyPages | F_mergeShortPages | F_maxPageWords | F_minPageWords
  | F_paragraphSeparator | F_customParagraphSeparator
  | F_sentenceSeparator | F_customSentenceSeparator | F_keepSeparator
  | F_semanticChunkSize | F_semanticChunkOverlap
  | F_semanticSentenceSeparator | F_semanticCustomSentenceSeparator
  | F_semanticKeepSeparator | F_semanticMinChunkSize | F_semanticMaxChunkSize
  | F_hybridMaxChunkSize | F_hybridMinChunkSize
  | F_hybridParagraphSeparator | F_hybridCustomParagraphSeparator
  | F_hybridSentenceSeparator | F_hybridCustomSentenceSeparator
  | F_hybridChunkSize | F_hybridChunkOverlap | F_hybridKeepSeparator
  | F_hybridSemanticThreshold

fun field_value :: "field \<Rightarrow> chunk_state \<Rightarrow> json" where
  "field_value F_chunkSize s = JNum (chunkSize s)"
| "field_value F_chunkOverlap s = JNum (chunkOverlap s)"
| "field_value F_minChunkSize s = JNum (minChunkSize s)"
| "field_value F_maxChunkSize s = JNum (maxChunkSize s)"
| "field_value F_semanticThreshold s = JNum (semanticThreshold s)"
| "field_value F_mergeEmptyPages s = JBool (mergeEmptyPages s)"
| "field_value F_mergeShortPages s = JBool (mergeShortPages s)"
| "field_value F_maxPageWords s = JNum (maxPageWords s)"
| "field_value F_minPageWords s = JNum (minPageWords s)"
| "field_value F_paragraphSeparator s = JStr (paragraphSeparator s)"
| "field_value F_customParagraphSeparator s = JStr (customParagraphSeparator s)"
| "field_value F_sentenceSeparator s = JStr (sentenceSeparator s)"
| "field_value F_customSentenceSeparator s = JStr (customSentenceSeparator s)"
| "field_value F_keepSeparator s = JBool (keepSeparator s)"
| "field_value F_semanticChunkSize s = JNum (semanticChunkSize s)"
| "field_value F_semanticChunkOverlap s = JNum (semanticChunkOverlap s)"
| "field_value F_semanticSentenceSeparator s = JStr (semanticSentenceSeparator s)"
| "field_value F_semanticCustomSentenceSeparator s = JStr (semanticCustomSentenceSeparator s)"
| "field_value F_semanticKeepSeparator s = JBool (semanticKeepSeparator s)"
| "field_value F_semanticMinChunkSize s = JNum (semanticMinChunkSize s)"
| "field_value F_semanticMaxChunkSize s = JNum (semanticMaxChunkSize s)"
| "field_value F_hybridMaxChunkSize s = JNum (hybridMaxChunkSize s)"
| "field_value F_hybridMinChunkSize s = JNum (hybridMinChunkSize s)"
| "field_value F_hybridParagraphSeparator s = JStr (hybridParagraphSeparator s)"
| "field_value F_hybridCustomParagraphSeparator s = JStr (hybridCustomParagraphSeparator s)"
| "field_value F_hybridSentenceSeparator s = JStr (hybridSentenceSeparator s)"
| "field_value F_hybridCustomSentenceSeparator s = JStr (hybridCustomSentenceSeparator s)"
| "field_value F_hybridChunkSize s = JNum (hybridChunkSize s)"
| "field_value F_hybridChunkOverlap s = JNum (hybridChunkOverlap s)"
| "field_value F_hybridKeepSeparator s = JBool (hybridKeepSeparator s)"
| "field_value F_hybridSemanticThreshold s = JNum (hybridSemanticThreshold s)"

text \<open>\<open>renderAdvancedOptions\<close>: the inputs shown for each chunking method, that is, the
  parameter fields of each variant (a custom text input is shown once its select is on
  \<open>custom\<close>). \<open>maxChunkSize\<close> has no input under any method.\<close>

definition variant_fields :: "jsstring \<Rightarrow> field list" where
  "variant_fields m =
     (if m = str ''by_pages'' then
        [F_minChunkSize, F_maxPageWords, F_minPageWords, F_mergeEmptyPages, F_mergeShortPages]
      else if m = str ''fixed_size'' then
        [F_chunkSize, F_chunkOverlap]
      else if m = str ''by_sentences'' then
        [F_chunkSize, F_chunkOverlap, F_sentenceSeparator, F_customSentenceSeparator,
         F_keepSeparator]
      else if m = str ''semantic'' then
        [F_semanticChunkSize, F_semanticChunkOverlap, F_semanticSentenceSeparator,
         F_semanticCustomSentenceSeparator, F_semanticKeepSeparator, F_semanticThreshold,
         F_semanticMinChunkSize, F_semanticMaxChunkSize]
      else if m = str ''hybrid'' then
        [F_hybridMaxChunkSize, F_hybridMinChunkSize, F_hybridParagraphSeparator,
         F_hybridCustomParagraphSeparator, F_hybridSentenceSeparator,
         F_hybridCustomSentenceSeparator, F_hybridChunkSize, F_hybridChunkOverlap,
         F_hybridKeepSeparator, F_hybridSemanticThreshold]
      else if m = str ''by_paragraphs'' then
        [F_minChunkSize, F_paragraphSeparator, F_customParagraphSeparator]
      else [])"

text \<open>The key of the request body whose value is computed from a field.\<close>

fun body_key :: "field \<Rightarrow> jsstring" where
  "body_key F_chunkSize = str ''chunk_size''"
| "body_key F_chunkOverlap = str ''chunk_overlap''"
| "body_key F_minChunkSize = str ''min_chunk_size''"
| "body_key F_maxChunkSize = str ''max_chunk_size''"
| "body_key F_semanticThreshold = str ''semantic_threshold''"
| "body_key F_mergeEmptyPages = str ''merge_empty_pages''"
| "body_key F_mergeShortPages = str ''merge_short_pages''"
| "body_key F_maxPageWords = str ''max_page_words''"
| "body_key F_minPageWords = str ''min_page_words''"
| "body_key F_paragraphSeparator = str ''paragraph_separator''"
| "body_key F_customParagraphSeparator = str ''paragraph_separator''"
| "body_key F_sentenceSeparator = str ''sentence_separators''"
| "body_key F_customSentenceSeparator = str ''sentence_separators''"
| "body_key F_keepSeparator = str ''keep_separator''"
| "body_key F_semanticChunkSize = str ''semantic_chunk_size''"
| "body_key F_semanticChunkOverlap = str ''semantic_chunk_overlap''"
| "body_key F_semanticSentenceSeparator = str ''semantic_sentence_separators''"
| "body_key F_semanticCustomSentenceSeparator = str ''semantic_sentence_separators''"
| "body_key F_semanticKeepSeparator = str ''semantic_keep_separator''"
| "body_key F_semanticMinChunkSize = str ''semantic_min_chunk_size''"
| "body_key F_semanticMaxChunkSize = str ''semantic_max_chunk_size''"
| "body_key F_hybridMaxChunkSize = str ''hybrid_max_chunk_size''"
| "body_key F_hybridMinChunkSize = str ''hybrid_min_chunk_size''"
| "body_key F_hybridParagraphSeparator = str ''hybrid_paragraph_separator''"
| "body_key F_hybridCustomParagraphSeparator = str ''hybrid_paragraph_separator''"
| "body_key F_hybridSentenceSeparator = str ''hybrid_sentence_separators''"
| "body_key F_hybridCustomSentenceSeparator = str ''hybrid_sentence_separators''"
| "body_key F_hybridChunkSize = str ''hybrid_chunk_size''"
| "body_key F_hybridChunkOverlap = str ''hybrid_chunk_overlap''"
| "body_key F_hybridKeepSeparator = str ''hybrid_keep_separator''"
| "body_key F_hybridSemanticThreshold = str ''hybrid_semantic_threshold''"

text \<open>The fields that hold a separator: the preset selectors and the custom texts. The
  body carries one resolved value for each pair; every other field is sent as it is.\<close>

definition separator_fields :: "field list" where
  "separator_fields =
     [F_paragraphSeparator, F_customParagraphSeparator,
      F_sentenceSeparator, F_customSentenceSeparator,
      F_semanticSentenceSeparator, F_semanticCustomSentenceSeparator,
      F_hybridParagraphSeparator, F_hybridCustomParagraphSeparator,
      F_hybridSentenceSeparator, F_hybridCustomSentenceSeparator]"

text \<open>The condition under which \<open>handleChunk\<close> goes on to its request: a document and
  a method are chosen.\<close>

definition configured_C :: "chunk_state \<Rightarrow> bool" where
  "configured_C s = (\<not> (selectedDoc_C s = [] \<or> chunkingOption s = []))"

subsection \<open>\<open>handleDeleteDocument\<close> and \<open>handleViewDocument\<close>\<close>

text \<open>The notices U+6587 U+6863 U+5220 U+9664 U+6210 U+529F ("document deleted") and
  the prefixes of the delete and view failures.\<close>

definition msg_deleted :: jsstring where
  "msg_deleted = [0x6587, 0x6863, 0x5220, 0x9664, 0x6210, 0x529F]"

definition msg_delete_error :: jsstring where
  "msg_delete_error = [0x5220, 0x9664, 0x6587, 0x6863, 0x65F6, 0x51FA, 0x9519, 0x3A, 0x20]"

definition msg_view_error :: jsstring where
  "msg_view_error = [0x67E5, 0x770B, 0x6587, 0x6863, 0x65F6, 0x51FA, 0x9519, 0x3A, 0x20]"

text \<open>After a successful delete the handler sets the notice, starts
  \<open>fetchLoadedDocuments\<close> (whose requests go out at once and whose state updates arrive
  after the handler's own) and compares the deleted name with \<open>selectedDoc\<close>.\<close>

definition handleDeleteDocument_C ::
    "browser \<Rightarrow> jsstring \<Rightarrow> chunk_state \<Rightarrow> chunk_state \<times> event list" where
  "handleDeleteDocument_C br docName s =
     (let req = DELETE_document_chunked docName in
      case fetch br req of
        Inl m \<Rightarrow> (s\<lparr>processingStatus := msg_delete_error @ m\<rparr>, [Fetch req])
      | Inr response \<Rightarrow>
          if \<not> ok response
          then (s\<lparr>processingStatus :=
                    msg_delete_error @ http_error (resp_status response)\<rparr>, [Fetch req])
          else
            let s1 = s\<lparr>processingStatus := msg_deleted\<rparr>;
                s2 = (if selectedDoc_C s = docName
                      then s1\<lparr>selectedDoc_C := [], chunks := JNull\<rparr> else s1);
                (s3, evs) = fetchLoadedDocuments br s2
            in (s3, Fetch req # evs))"

definition handleViewDocument_C ::
    "browser \<Rightarrow> jsstring \<Rightarrow> chunk_state \<Rightarrow> chunk_state \<times> event list" where
  "handleViewDocument_C br docName s =
     (let req = GET_document_chunked (JStr docName) in
      case fetch br req of
        Inl m \<Rightarrow> (s\<lparr>processingStatus := msg_view_error @ m\<rparr>, [Fetch req])
      | Inr response \<Rightarrow>
          if \<not> ok response
          then (s\<lparr>processingStatus :=
                    msg_view_error @ http_error (resp_status response)\<rparr>, [Fetch req])
          else
            (case resp_json response of
               Inl m \<Rightarrow> (s\<lparr>processingStatus := msg_view_error @ m\<rparr>, [Fetch req])
             | Inr data \<Rightarrow>
                 (s\<lparr>chunks := data, activeTab_C := str ''chunks''\<rparr>, [Fetch req])))"

section \<open>The preview of a result\<close>

text \<open>
  What the preview tab of a page shows for the result held in state: the placeholder
  image when there is no result, the rows of the segment list, the empty-state notice,
  or nothing at all because rendering threw. Rendering throws when a property of
  \<open>null\<close> or \<open>undefined\<close> is read, when a value that is not a function is called,
  when a value cannot be converted to a string, and when React is given an object as the
  child of an element. A row is the values placed in it.
\<close>

type_synonym row = "(jsstring \<times> json) list"

datatype preview = Threw | NoResult | Segments "row list" | EmptyState

text \<open>Rows for the elements of an array; one row that throws makes the rendering throw.\<close>

definition rows_of :: "(json \<Rightarrow> row option) \<Rightarrow> json list \<Rightarrow> preview" where
  "rows_of f xs = (case those (map f xs) of None \<Rightarrow> Threw | Some rows \<Rightarrow> Segments rows)"

text \<open>A row whose values are all placed as children.\<close>

definition row_of_children :: "row \<Rightarrow> row option" where
  "row_of_children r = (if list_all renderable (map snd r) then Some r else None)"

text \<open>\<open>value ? new Date(value).toLocaleString() : \<dots>\<close> and
  \<open>value && new Date(value).toLocaleString()\<close>: a truthy value is converted by
  \<open>new Date\<close>, a falsy one is not.\<close>

definition date_ok :: "json \<Rightarrow> bool" where
  "date_ok v = (if truthy v then convertible v else True)"

subsection \<open>ChunkFile.jsx, \<open>renderRightPanel\<close> on the tab \<open>chunks\<close>\<close>

text \<open>The document information: five values of the result, the values of
  \<open>chunks.chunking_config\<close> when that is truthy, and the time stamp.\<close>

definition info_C :: "json \<Rightarrow> bool" where
  "info_C result =
     (let config = get_prop result (str ''chunking_config'') in
      list_all renderable
        [get_prop result (str ''filename''),
         get_prop result (str ''total_pages''),
         get_prop result (str ''total_chunks''),
         get_prop result (str ''loading_method''),
         get_prop result (str ''chunking_method'')] \<and>
      (if truthy config
       then list_all renderable
              [get_prop config (str ''chunk_size''),
               get_prop config (str ''chunk_overlap''),
               get_prop config (str ''min_chunk_size''),
               get_prop config (str ''max_chunk_size''),
               get_prop config (str ''semantic_threshold'')]
       else True) \<and>
      date_ok (get_prop result (str ''timestamp'')))"

text \<open>Each chunk's row reads \<open>chunk.metadata.chunk_id\<close> first, as its key; the key is
  also shown, so a key that cannot be converted is an object that cannot be shown.\<close>

definition chunk_row :: "json \<Rightarrow> row option" where
  "chunk_row chunk =
     (if nullish chunk then None
      else
        let metadata = get_prop chunk (str ''metadata'') in
        if nullish metadata then None
        else row_of_children
               [(str ''chunk_id'', get_prop metadata (str ''chunk_id'')),
                (str ''page_range'', get_prop metadata (str ''page_range'')),
                (str ''word_count'', get_prop metadata (str ''word_count'')),
                (str ''content'', get_prop chunk (str ''content''))])"

text \<open>\<open>chunks ? (\<dots> Array.isArray(chunks.chunks) && chunks.chunks.map(\<dots>) \<dots>) :
  <RandomImage/>\<close>, as a function of the result in state: when \<open>chunks.chunks\<close> is
  not an array the list container stays empty.\<close>

definition renderRightPanel_C :: "json \<Rightarrow> preview" where
  "renderRightPanel_C result =
     (if \<not> truthy result then NoResult
      else if \<not> info_C result then Threw
      else (case get_prop result (str ''chunks'') of
              JArr xs \<Rightarrow> rows_of chunk_row xs
            | _ \<Rightarrow> Segments []))"

section \<open>LoadFile.jsx\<close>

text \<open>\<open>s.includes(sub)\<close>.\<close>

fun includes_js :: "jsstring \<Rightarrow> jsstring \<Rightarrow> bool" where
  "includes_js [] sub = (sub = [])"
| "includes_js (x # xs) sub = (take (length sub) (x # xs) = sub \<or> includes_js xs sub)"

text \<open>The string a convertible value converts to (as \<open>new Error(v)\<close> does for its
  message): a string is itself, an array is its elements joined by commas with \<open>null\<close>
  and \<open>undefined\<close> elements empty, an object is \<open>[object Object]\<close>. A value that is
  not \<open>convertible\<close> throws instead, and its callers test that first.\<close>

fun to_text :: "browser \<Rightarrow> json \<Rightarrow> jsstring" where
  "to_text br JUndefined = str ''undefined''"
| "to_text br JNull = str ''null''"
| "to_text br (JBool b) = (if b then str ''true'' else str ''false'')"
| "to_text br (JNum x) = numberText br x"
| "to_text br (JStr s) = s"
| "to_text br (JArr xs) =
     join_with 0x2C (map (\<lambda>v. if v = JNull \<or> v = JUndefined then [] else to_text br v) xs)"
| "to_text br (JObj kvs) = str ''[object Object]''"

text \<open>The three configuration objects. Their change handlers store the value of a
  select or text input (a string) or the state of a checkbox (a boolean) under the name
  of the input; \<open>languages\<close> starts as an array and becomes the string chosen in its
  select, \<open>hasHeader\<close> starts as the empty string and becomes a boolean.\<close>

record text_config =
  encoding :: jsstring
  preserveNewlines :: bool
  autoDetectEncoding :: bool

record unstructured_config =
  strategy :: jsstring
  include_page_breaks :: bool
  include_metadata :: bool
  languages :: json
  pdf_image_processor :: jsstring

record csv_config =
  delimiter :: jsstring
  hasHeader :: json
  sourceColumn :: jsstring

record load_state =
  file_L :: "jsfile option"
  loadingMethod_L :: jsstring
  unstructuredStrategy :: jsstring
  loadedContent :: json
  status_L :: jsstring
  documents :: json
  activeTab_L :: jsstring
  selectedDoc_L :: json
  fileType_L :: "jsstring option"
  textConfig :: text_config
  unstructuredConfig :: unstructured_config
  csvConfig :: csv_config

definition load_initial :: load_state where
  "load_initial = \<lparr>
     file_L = None,
     loadingMethod_L = str ''pymupdf'',
     unstructuredStrategy = str ''fast'',
     loadedContent = JNull,
     status_L = [],
     documents = JArr [],
     activeTab_L = str ''preview'',
     selectedDoc_L = JNull,
     fileType_L = None,
     textConfig =
       \<lparr> encoding = str ''utf-8'', preserveNewlines = True, autoDetectEncoding = False \<rparr>,
     unstructuredConfig =
       \<lparr> strategy = str ''fast'', include_page_breaks = True, include_metadata = True,
         languages = JArr [JStr (str ''eng'')], pdf_image_processor = str ''auto'' \<rparr>,
     csvConfig =
       \<lparr> delimiter = [], hasHeader = JStr [], sourceColumn = [] \<rparr> \<rparr>"

text \<open>\<open>selectedFile.name.split('.').pop().toLowerCase()\<close>: the text after the last dot
  of the file name (the whole name when it has no dot), in lower case.\<close>

definition fileExt :: "browser \<Rightarrow> jsfile \<Rightarrow> jsstring" where
  "fileExt br selectedFile = lowerCase br (last (split_on 0x2E (file_name selectedFile)))"

text \<open>\<open>handleFileChange\<close>, given \<open>e.target.files\<close>.\<close>

definition handleFileChange :: "browser \<Rightarrow> jsfile list \<Rightarrow> load_state \<Rightarrow> load_state" where
  "handleFileChange br files s =
     (case files of
        [] \<Rightarrow> s
      | selectedFile # rest \<Rightarrow>
          let fileExt = fileExt br selectedFile;
              s1 = s\<lparr>fileType_L := Some fileExt, file_L := Some selectedFile\<rparr>
          in
          if fileExt = str ''txt'' then s1\<lparr>loadingMethod_L := str ''text''\<rparr>
          else if fileExt = str ''pdf'' then s1\<lparr>loadingMethod_L := str ''pymupdf''\<rparr>
          else if fileExt = str ''csv'' then s1\<lparr>loadingMethod_L := str ''csv''\<rparr>
          else if fileExt = str ''md'' then s1\<lparr>loadingMethod_L := str ''md''\<rparr>
          else s1)"

text \<open>The condition under which \<open>handleProcess\<close> goes on to its request.\<close>

definition configured_L :: "load_state \<Rightarrow> bool" where
  "configured_L s = (\<not> (file_L s = None \<or> loadingMethod_L s = []))"

text \<open>\<open>fetchDocuments\<close>: a failure is only logged.\<close>

definition fetchDocuments :: "browser \<Rightarrow> load_state \<Rightarrow> load_state \<times> event list" where
  "fetchDocuments br s =
     (let req = GET_documents (str ''loaded'') in
      case fetch br req of
        Inl m \<Rightarrow> (s, [Fetch req])
      | Inr response \<Rightarrow>
          (case resp_json response of
             Inl m \<Rightarrow> (s, [Fetch req])
           | Inr data \<Rightarrow>
               if nullish data then (s, [Fetch req])
               else (s\<lparr>documents := get_prop data (str ''documents'')\<rparr>, [Fetch req])))"

text \<open>The messages of \<open>handleProcess\<close>: U+8BF7 U+9009 U+62E9 U+6240 U+6709 U+5FC5 U+9700
  U+7684 U+9009 U+9879 (asks to choose all required options), "loading", "file loaded",
  and the text put around an error message that mentions CSV.\<close>

definition msg_select_all :: jsstring where
  "msg_select_all =
     [0x8BF7, 0x9009, 0x62E9, 0x6240, 0x6709, 0x5FC5, 0x9700, 0x7684, 0x9009, 0x9879]"

definition msg_loading :: jsstring where
  "msg_loading = [0x52A0, 0x8F7D, 0x4E2D, 0x2E, 0x2E, 0x2E]"

definition msg_loaded :: jsstring where
  "msg_loaded = [0x6587, 0x4EF6, 0x52A0, 0x8F7D, 0x6210, 0x529F, 0xFF01]"

definition msg_csv_error :: jsstring where
  "msg_csv_error =
     [0x43, 0x53, 0x56, 0x6587, 0x4EF6, 0x52A0, 0x8F7D, 0x9519, 0x8BEF, 0x3A, 0x20]"

definition msg_csv_hints :: jsstring where
  "msg_csv_hints =
     [0x0A, 0x8BF7, 0x68C0, 0x67E5, 0xFF1A,
      0x0A, 0x31, 0x2E, 0x20, 0x6587, 0x4EF6, 0x7F16, 0x7801, 0x662F, 0x5426, 0x6B63, 0x786E,
      0x0A, 0x32, 0x2E, 0x20, 0x5206, 0x9694, 0x7B26, 0x662F, 0x5426, 0x5339, 0x914D,
      0x0A, 0x33, 0x2E, 0x20, 0x662F, 0x5426, 0x5305, 0x542B, 0x7279, 0x6B8A, 0x5B57, 0x7B26,
      0x0A, 0x34, 0x2E, 0x20, 0x5217, 0x540D, 0x662F, 0x5426, 0x6B63, 0x786E]"

text \<open>The \<open>catch\<close> block of \<open>handleProcess\<close>.\<close>

definition load_failed :: "load_state \<Rightarrow> jsstring \<Rightarrow> load_state" where
  "load_failed s m =
     (if includes_js m (str ''CSV'') then s\<lparr>status_L := msg_csv_error @ m @ msg_csv_hints\<rparr>
      else s\<lparr>status_L := msg_error @ m\<rparr>)"

text \<open>The \<open>FormData\<close> sent to \<open>/load\<close>.\<close>

definition formData_L :: "jsfile \<Rightarrow> load_state \<Rightarrow> (jsstring \<times> form_value) list" where
  "formData_L f s =
     [(str ''file'', FFile f), (str ''loading_method'', FValue (JStr (loadingMethod_L s)))] @
     (if loadingMethod_L s = str ''unstructured'' then
        [(str ''strategy'', FValue (JStr (strategy (unstructuredConfig s)))),
         (str ''chunking_options'', FJson (JObj
            [(str ''include_page_breaks'', JBool (include_page_breaks (unstructuredConfig s))),
             (str ''include_metadata'', JBool (include_metadata (unstructuredConfig s))),
             (str ''languages'', languages (unstructuredConfig s)),
             (str ''pdf_image_processor'',
                JStr (pdf_image_processor (unstructuredConfig s)))]))]
      else if loadingMethod_L s = str ''text'' then
        [(str ''text_config'', FJson (JObj
            [(str ''encoding'', JStr (encoding (textConfig s))),
             (str ''preserveNewlines'', JBool (preserveNewlines (textConfig s))),
             (str ''autoDetectEncoding'', JBool (autoDetectEncoding (textConfig s)))]))]
      else if loadingMethod_L s = str ''csv'' then
        [(str ''csv_config'', FJson (JObj
            [(str ''delimiter'', JStr (delimiter (csvConfig s))),
             (str ''hasHeader'', hasHeader (csvConfig s)),
             (str ''sourceColumn'', JStr (sourceColumn (csvConfig s)))]))]
      else [])"

text \<open>\<open>handleProcess\<close>. For a response that is not \<open>ok\<close> the error is
  \<open>new Error(errorData.detail || `HTTP error! status: ${response.status}`)\<close>; a truthy
  detail that cannot be converted makes \<open>new Error\<close> itself throw, into the same
  \<open>catch\<close> block.\<close>

definition handleProcess_L :: "browser \<Rightarrow> load_state \<Rightarrow> load_state \<times> event list" where
  "handleProcess_L br s =
     (case file_L s of
        None \<Rightarrow> (s\<lparr>status_L := msg_select_all\<rparr>, [])
      | Some f \<Rightarrow>
          if loadingMethod_L s = [] then (s\<lparr>status_L := msg_select_all\<rparr>, [])
          else
            let s1 = s\<lparr>status_L := msg_loading, loadedContent := JNull\<rparr>;
                req = POST_load (formData_L f s)
            in
            (case fetch br req of
               Inl m \<Rightarrow> (load_failed s1 m, [Fetch req])
             | Inr response \<Rightarrow>
                 if \<not> ok response
                 then
                   (case resp_json response of
                      Inl m \<Rightarrow> (load_failed s1 m, [Fetch req])
                    | Inr errorData \<Rightarrow>
                        if nullish errorData
                        then (load_failed s1 (nullRead br errorData (str ''detail'')),
                              [Fetch req])
                        else
                          let detail = get_prop errorData (str ''detail'') in
                          (load_failed s1
                             (if truthy detail
                              then (if convertible detail then to_text br detail
                                    else toPrimitiveError br)
                              else http_error (resp_status response)),
                           [Fetch req]))
                 else
                   (case resp_json response of
                      Inl m \<Rightarrow> (load_failed s1 m, [Fetch req])
                    | Inr data \<Rightarrow>
                        if nullish data
                        then (load_failed s1 (nullRead br data (str ''loaded_content'')),
                              [Fetch req])
                        else
                          let s2 = s1\<lparr>loadedContent := get_prop data (str ''loaded_content''),
                                      status_L := msg_loaded,
                                      activeTab_L := str ''preview''\<rparr>;
                              (s3, evs) = fetchDocuments br s2
                          in (s3, Fetch req # evs))))"

text \<open>\<open>handleDeleteDocument\<close>: the displayed result is cleared when the deleted name is
  the name of \<open>selectedDoc\<close>, the document last opened by \<open>handleViewDocument\<close>.\<close>

definition handleDeleteDocument_L ::
    "browser \<Rightarrow> jsstring \<Rightarrow> load_state \<Rightarrow> load_state \<times> event list" where
  "handleDeleteDocument_L br docName s =
     (let req = DELETE_document docName in
      case fetch br req of
        Inl m \<Rightarrow> (s\<lparr>status_L := str ''Error deleting document: '' @ m\<rparr>, [Fetch req])
      | Inr response \<Rightarrow>
          if \<not> ok response
          then (s\<lparr>status_L := str ''Error deleting document: '' @
                    http_error (resp_status response)\<rparr>, [Fetch req])
          else
            let s1 = s\<lparr>status_L := str ''Document deleted successfully''\<rparr>;
                s2 = (if \<not> nullish (selectedDoc_L s) \<and>
                         get_prop (selectedDoc_L s) (str ''name'') = JStr docName
                      then s1\<lparr>selectedDoc_L := JNull, loadedContent := JNull\<rparr> else s1);
                (s3, evs) = fetchDocuments br s2
            in (s3, Fetch req # evs))"

definition view_failed_L :: "load_state \<Rightarrow> jsstring \<Rightarrow> load_state" where
  "view_failed_L s m = s\<lparr>status_L := str ''Error loading document: '' @ m\<rparr>"

definition handleViewDocument_L ::
    "browser \<Rightarrow> json \<Rightarrow> load_state \<Rightarrow> load_state \<times> event list" where
  "handleViewDocument_L br doc s =
     (if nullish doc then (view_failed_L s (nullRead br doc (str ''name'')), [])
      else if \<not> convertible (get_prop doc (str ''name''))
      then (view_failed_L s (toPrimitiveError br), [])
      else
        let req = GET_document_json (get_prop doc (str ''name'')) in
        case fetch br req of
          Inl m \<Rightarrow> (view_failed_L s m, [Fetch req])
        | Inr response \<Rightarrow>
            if \<not> ok response
            then (view_failed_L s (http_error (resp_status response)), [Fetch req])
            else
              (case resp_json response of
                 Inl m \<Rightarrow> (view_failed_L s m, [Fetch req])
               | Inr data \<Rightarrow>
                   (s\<lparr>selectedDoc_L := doc, loadedContent := data,
                      activeTab_L := str ''preview'', status_L := []\<rparr>, [Fetch req])))"

text \<open>
  \<open>renderRightPanel\<close> on the tab \<open>preview\<close>, as a function of the result in state.
  The document information shows \<open>value || 'N/A'\<close> for most values. When the loading
  method is \<open>text\<close> it reads \<open>loadedContent.chunks[0]?.metadata\<close>, which throws for
  \<open>chunks\<close> \<open>null\<close> or \<open>undefined\<close>, and shows four values of that metadata when
  it is truthy; otherwise it shows the loading strategy and the chunking method.
\<close>

definition info_L :: "json \<Rightarrow> bool" where
  "info_L result =
     (let chunks = get_prop result (str ''chunks'') in
      list_all renderable
        [get_prop result (str ''filename''),
         get_prop result (str ''total_pages''),
         get_prop result (str ''total_chunks''),
         get_prop result (str ''loading_method''),
         get_prop result (str ''chunking_strategy'')] \<and>
      date_ok (get_prop result (str ''timestamp'')) \<and>
      (if get_prop result (str ''loading_method'') = JStr (str ''text'')
       then
         (if nullish chunks then False
          else
            let first = index0 chunks;
                metadata = (if nullish first then JUndefined
                            else get_prop first (str ''metadata''))
            in
            if truthy metadata
            then list_all renderable
                   [get_prop metadata (str ''encoding''),
                    get_prop metadata (str ''char_count''),
                    get_prop metadata (str ''word_count'')]
            else True)
       else list_all renderable
              [get_prop result (str ''loading_strategy''),
               get_prop result (str ''chunking_method'')]))"

definition load_row :: "json \<Rightarrow> row option" where
  "load_row chunk =
     (if nullish chunk then None
      else
        let metadata = get_prop chunk (str ''metadata'') in
        if nullish metadata then None
        else row_of_children
               [(str ''chunk_id'', get_prop metadata (str ''chunk_id'')),
                (str ''page_number'', get_prop metadata (str ''page_number'')),
                (str ''word_count'', get_prop metadata (str ''word_count'')),
                (str ''page_range'', get_prop metadata (str ''page_range'')),
                (str ''content'', get_prop chunk (str ''content''))])"

text \<open>The list is \<open>loadedContent.chunks.map(\<dots>)\<close> with no test of \<open>chunks\<close>:
  reading \<open>map\<close> of \<open>undefined\<close> or \<open>null\<close> throws, and so does calling \<open>map\<close>
  on a value that is not an array.\<close>

definition renderRightPanel_L :: "json \<Rightarrow> preview" where
  "renderRightPanel_L result =
     (if \<not> truthy result then NoResult
      else if \<not> info_L result then Threw
      else (case get_prop result (str ''chunks'') of
              JArr xs \<Rightarrow> rows_of load_row xs
            | _ \<Rightarrow> Threw))"

section \<open>ParseFile.jsx\<close>

record parse_state =
  file_P :: "jsfile option"
  loadingMethod_P :: jsstring
  parsingOption :: jsstring
  parsedContent :: json
  status_P :: jsstring
  docName_P :: jsstring
  isProcessed :: bool
  fileType_P :: jsstring
  tab :: jsstring
  parsedDocs :: json
  parsedLoading :: bool
  parsedError :: jsstring

definition parse_initial :: parse_state where
  "parse_initial = \<lparr>
     file_P = None,
     loadingMethod_P = str ''pymupdf'',
     parsingOption = str ''all_text'',
     parsedContent = JNull,
     status_P = [],
     docName_P = [],
     isProcessed = False,
     fileType_P = str ''pdf'',
     tab = str ''preview'',
     parsedDocs = JArr [],
     parsedLoading = False,
     parsedError = [] \<rparr>"

text \<open>The "processing done" notice, the failure notice of \<open>fetchParsedDocs\<close>, the
  question of \<open>window.confirm\<close> around the name, and the text of \<open>alert\<close>.\<close>

definition msg_parse_done :: jsstring where
  "msg_parse_done = [0x5904, 0x7406, 0x5B8C, 0x6210, 0xFF01]"

definition msg_parsed_docs_failed :: jsstring where
  "msg_parsed_docs_failed = [0x83B7, 0x53D6, 0x89E3, 0x6790, 0x6587, 0x6863, 0x5931, 0x8D25]"

definition msg_confirm_delete :: "jsstring \<Rightarrow> jsstring" where
  "msg_confirm_delete docName =
     [0x786E, 0x5B9A, 0x8981, 0x5220, 0x9664, 0x20] @ docName @ [0x20, 0x5417, 0xFF1F]"

definition msg_delete_failed :: jsstring where
  "msg_delete_failed = [0x5220, 0x9664, 0x5931, 0x8D25]"

definition parse_failed :: "parse_state \<Rightarrow> jsstring \<Rightarrow> parse_state" where
  "parse_failed s m = s\<lparr>status_P := msg_error @ m\<rparr>"

definition formData_P :: "jsfile \<Rightarrow> parse_state \<Rightarrow> (jsstring \<times> form_value) list" where
  "formData_P f s =
     [(str ''file'', FFile f),
      (str ''loading_method'', FValue (JStr (loadingMethod_P s))),
      (str ''parsing_option'', FValue (JStr (parsingOption s))),
      (str ''file_type'', FValue (JStr (fileType_P s)))]"

definition handleProcess_P :: "browser \<Rightarrow> parse_state \<Rightarrow> parse_state \<times> event list" where
  "handleProcess_P br s =
     (case file_P s of
        None \<Rightarrow> (s\<lparr>status_P := msg_select_all\<rparr>, [])
      | Some f \<Rightarrow>
          if loadingMethod_P s = [] \<or> parsingOption s = []
          then (s\<lparr>status_P := msg_select_all\<rparr>, [])
          else
            let s1 = s\<lparr>status_P := msg_processing, parsedContent := JNull,
                        isProcessed := False\<rparr>;
                req = POST_parse (formData_P f s)
            in
            (case fetch br req of
               Inl m \<Rightarrow> (parse_failed s1 m, [Fetch req])
             | Inr response \<Rightarrow>
                 if \<not> ok response
                 then (parse_failed s1 (http_error (resp_status response)), [Fetch req])
                 else
                   (case resp_json response of
                      Inl m \<Rightarrow> (parse_failed s1 m, [Fetch req])
                    | Inr data \<Rightarrow>
                        if nullish data
                        then (parse_failed s1 (nullRead br data (str ''parsed_content'')),
                              [Fetch req])
                        else
                          (s1\<lparr>parsedContent := get_prop data (str ''parsed_content''),
                              status_P := msg_parse_done, isProcessed := True\<rparr>,
                           [Fetch req]))))"

text \<open>\<open>fetchParsedDocs\<close>: \<open>data.documents || []\<close>. \<open>parsedLoading\<close> is set while the
  request runs and is \<open>false\<close> again when the function ends.\<close>

definition fetchParsedDocs :: "browser \<Rightarrow> parse_state \<Rightarrow> parse_state \<times> event list" where
  "fetchParsedDocs br s =
     (let s1 = s\<lparr>parsedLoading := False, parsedError := []\<rparr>;
          failed = s1\<lparr>parsedError := msg_parsed_docs_failed\<rparr>
      in
      case fetch br GET_parsed_docs of
        Inl m \<Rightarrow> (failed, [Fetch GET_parsed_docs])
      | Inr res \<Rightarrow>
          (case resp_json res of
             Inl m \<Rightarrow> (failed, [Fetch GET_parsed_docs])
           | Inr data \<Rightarrow>
               if nullish data then (failed, [Fetch GET_parsed_docs])
               else
                 let docs = get_prop data (str ''documents'') in
                 (s1\<lparr>parsedDocs := (if truthy docs then docs else JArr [])\<rparr>,
                  [Fetch GET_parsed_docs])))"

text \<open>The tab buttons call \<open>setTab\<close>; the effect on \<open>[tab]\<close> runs when the tab has
  changed and fetches the list when the new tab is \<open>manage\<close>.\<close>

definition setTab :: "browser \<Rightarrow> jsstring \<Rightarrow> parse_state \<Rightarrow> parse_state \<times> event list" where
  "setTab br t s =
     (if tab s \<noteq> t \<and> t = str ''manage'' then fetchParsedDocs br (s\<lparr>tab := t\<rparr>)
      else (s\<lparr>tab := t\<rparr>, []))"

definition handleViewParsed ::
    "browser \<Rightarrow> jsstring \<Rightarrow> parse_state \<Rightarrow> parse_state \<times> event list" where
  "handleViewParsed br docName s =
     (let req = GET_parsed_doc docName in
      case fetch br req of
        Inl m \<Rightarrow> (s\<lparr>parsedContent := JNull\<rparr>, [Fetch req])
      | Inr res \<Rightarrow>
          (case resp_json res of
             Inl m \<Rightarrow> (s\<lparr>parsedContent := JNull\<rparr>, [Fetch req])
           | Inr data \<Rightarrow>
               (s\<lparr>parsedContent := data, tab := str ''preview''\<rparr>, [Fetch req])))"

text \<open>\<open>parsedDocs.filter(d => d.name !== docName)\<close>: \<open>None\<close> when it throws
  (\<open>parsedDocs\<close> is not an array, or an element is \<open>null\<close>).\<close>

definition without_name :: "jsstring \<Rightarrow> json \<Rightarrow> json option" where
  "without_name docName docs =
     (case docs of
        JArr ds \<Rightarrow>
          if \<exists>d \<in> set ds. nullish d then None
          else Some (JArr (filter (\<lambda>d. get_prop d (str ''name'') \<noteq> JStr docName) ds))
      | _ \<Rightarrow> None)"

text \<open>\<open>handleDeleteParsed\<close>: the answer of the DELETE request is not looked at, and
  the list in state is filtered in place of a new list request.\<close>

definition handleDeleteParsed ::
    "browser \<Rightarrow> jsstring \<Rightarrow> parse_state \<Rightarrow> parse_state \<times> event list" where
  "handleDeleteParsed br docName s =
     (let question = msg_confirm_delete docName; req = DELETE_parsed_doc docName in
      if \<not> confirm br question then (s, [Confirm question])
      else
        (case fetch br req of
           Inl m \<Rightarrow> (s, [Confirm question, Fetch req, Alert msg_delete_failed])
         | Inr res \<Rightarrow>
             (case without_name docName (parsedDocs s) of
                None \<Rightarrow> (s, [Confirm question, Fetch req, Alert msg_delete_failed])
              | Some docs \<Rightarrow> (s\<lparr>parsedDocs := docs\<rparr>, [Confirm question, Fetch req]))))"

text \<open>
  The tab \<open>preview\<close> of the page, as a function of the result in state. The document
  information shows \<open>parsedContent.metadata?.total_pages\<close>, the parsing method and
  the time stamp.
\<close>

definition info_P :: "json \<Rightarrow> bool" where
  "info_P result =
     (let metadata = get_prop result (str ''metadata'');
          total_pages = (if nullish metadata then JUndefined
                         else get_prop metadata (str ''total_pages''));
          parsing_method = (if nullish metadata then JUndefined
                            else get_prop metadata (str ''parsing_method''));
          timestamp = (if nullish metadata then JUndefined
                       else get_prop metadata (str ''timestamp''))
      in renderable total_pages \<and> renderable parsing_method \<and> date_ok timestamp)"

text \<open>Each row reads \<open>item.type\<close> first. The page is put in a template literal unless
  it is \<open>undefined\<close> or \<open>null\<close>, the level when it is truthy; type, title and content
  are children.\<close>

definition parse_row :: "json \<Rightarrow> row option" where
  "parse_row item =
     (if nullish item then None
      else
        let page = get_prop item (str ''page''); level = get_prop item (str ''level'') in
        if (if page \<noteq> JUndefined \<and> page \<noteq> JNull then convertible page else True) \<and>
           (if truthy level then convertible level else True) \<and>
           list_all renderable
             [get_prop item (str ''type''), get_prop item (str ''title''),
              get_prop item (str ''content'')]
        then Some [(str ''type'', get_prop item (str ''type'')),
                   (str ''page'', page),
                   (str ''level'', level),
                   (str ''title'', get_prop item (str ''title'')),
                   (str ''content'', get_prop item (str ''content''))]
        else None)"

text \<open>\<open>Array.isArray(parsedContent?.content) && parsedContent.content.length > 0 ?
  parsedContent.content.map(\<dots>) : \<close> the empty-state notice.\<close>

definition renderPreview_P :: "json \<Rightarrow> preview" where
  "renderPreview_P result =
     (if \<not> truthy result then NoResult
      else if \<not> info_P result then Threw
      else (case get_prop result (str ''content'') of
              JArr xs \<Rightarrow> if xs = [] then EmptyState else rows_of parse_row xs
            | _ \<Rightarrow> EmptyState))"

section \<open>Example inputs\<close>

text \<open>Lower case for the letters A to Z, the other code units kept: what
  \<open>toLowerCase\<close> does to a string of ASCII.\<close>

definition ascii_lower :: "jsstring \<Rightarrow> jsstring" where
  "ascii_lower s = map (\<lambda>c. if 0x41 \<le> c \<and> c \<le> 0x5A then c + 0x20 else c) s"

text \<open>A browser without network: every \<open>fetch\<close> rejects.\<close>

definition browser_offline :: browser where
  "browser_offline = \<lparr> fetch = (\<lambda>r. Inl (str ''Failed to fetch'')),
      confirm = (\<lambda>m. False), nullRead = (\<lambda>v k. []), toPrimitiveError = [],
      numberText = (\<lambda>x. []), lowerCase = ascii_lower \<rparr>"

text \<open>The document \<open>report\<close> selected, chunking by sentences, both separators of the
  common group set to custom texts.\<close>

definition chunk_example :: chunk_state where
  "chunk_example = chunk_initial \<lparr> selectedDoc_C := str ''report'',
      chunkingOption := str ''by_sentences'',
      sentenceSeparator := str ''custom'',
      customSentenceSeparator := str ''a|b'',
      paragraphSeparator := str ''custom'',
      customParagraphSeparator := str ''x|y''\<rparr>"

text \<open>Each page with a result on display.\<close>

definition chunk_ready :: chunk_state where
  "chunk_ready = chunk_initial \<lparr> selectedDoc_C := str ''a'',
      chunks := JObj [(str ''filename'', JStr (str ''a.pdf'')), (str ''chunks'', JArr [])] \<rparr>"

definition example_file :: jsfile where
  "example_file = \<lparr> file_name = str ''report.pdf'', file_data = [] \<rparr>"

definition text_file :: jsfile where
  "text_file = \<lparr> file_name = str ''my.notes.TXT'', file_data = [] \<rparr>"

definition load_ready :: load_state where
  "load_ready = load_initial \<lparr> file_L := Some example_file,
      loadedContent := JObj [(str ''filename'', JStr (str ''a.pdf'')), (str ''chunks'', JArr [])] \<rparr>"

definition parse_ready :: parse_state where
  "parse_ready = parse_initial \<lparr> file_P := Some example_file,
      parsedContent := JObj [(str ''content'', JArr [])] \<rparr>"

text \<open>A server that refuses every request with status 422 and a \<open>detail\<close>.\<close>

definition server_error :: response where
  "server_error = \<lparr> resp_status = 422,
      resp_json = Inr (JObj [(str ''detail'', JStr (str ''Document not found''))]) \<rparr>"

definition browser_rejected :: browser where
  "browser_rejected = \<lparr> fetch = (\<lambda>r. Inr server_error),
      confirm = (\<lambda>m. True), nullRead = (\<lambda>v k. []), toPrimitiveError = [],
      numberText = (\<lambda>x. []), lowerCase = ascii_lower \<rparr>"

text \<open>A server that answers every request with status 200: empty lists of loaded and
  chunked documents, the parsed documents \<open>a\<close> and \<open>b\<close> in the list of parsed
  documents, and the stored artifacts below as details.\<close>

definition parsed_doc_a :: json where
  "parsed_doc_a = JObj
     [(str ''metadata'', JObj [(str ''total_pages'', JNum 1)]),
      (str ''content'', JArr [JObj [(str ''type'', JStr (str ''text'')),
                                    (str ''content'', JStr (str ''hello''))]])]"

definition chunked_doc_a :: json where
  "chunked_doc_a = JObj
     [(str ''filename'', JStr (str ''a.pdf'')),
      (str ''total_chunks'', JNum 1),
      (str ''chunks'', JArr [JObj [(str ''content'', JStr (str ''hello'')),
                                   (str ''metadata'', JObj [(str ''chunk_id'', JNum 1)])]])]"

definition serve :: "request \<Rightarrow> json" where
  "serve r =
     (case r of
        GET_documents t \<Rightarrow> JObj [(str ''documents'', JArr [])]
      | GET_document_chunked n \<Rightarrow> chunked_doc_a
      | GET_parsed_docs \<Rightarrow>
          JObj [(str ''documents'', JArr [JObj [(str ''name'', JStr (str ''a''))],
                                          JObj [(str ''name'', JStr (str ''b''))]])]
      | GET_parsed_doc n \<Rightarrow> parsed_doc_a
      | POST_parse f \<Rightarrow> JObj [(str ''parsed_content'', parsed_doc_a)]
      | _ \<Rightarrow> JObj [])"

definition browser_serving :: browser where
  "browser_serving = \<lparr> fetch = (\<lambda>r. Inr \<lparr> resp_status = 200, resp_json = Inr (serve r) \<rparr>),
      confirm = (\<lambda>m. True), nullRead = (\<lambda>v k. []), toPrimitiveError = [],
      numberText = (\<lambda>x. []), lowerCase = ascii_lower \<rparr>"

text \<open>The Parse page on its management tab, listing the parsed documents \<open>a\<close> and
  \<open>b\<close>.\<close>

definition parse_listed :: parse_state where
  "parse_listed = parse_initial \<lparr> tab := str ''manage'',
      parsedDocs := JArr [JObj [(str ''name'', JStr (str ''a''))],
                          JObj [(str ''name'', JStr (str ''b''))]] \<rparr>"

text \<open>A result with neither \<open>chunks\<close> nor \<open>content\<close>.\<close>

definition result_without_segments :: json where
  "result_without_segments =
     JObj [(str ''filename'', JStr (str ''report.pdf'')), (str ''total_pages'', JNum 5)]"

section \<open>Properties of the JavaScript layer\<close>

lemma str_eq_iff [simp]: "str a = str b \<longleftrightarrow> a = b"
proof -
  have "inj (of_char :: char \<Rightarrow> nat)"
    by (rule injI) simp
  then show ?thesis
    by (simp add: str_def)
qed

lemma split_on_not_Nil [simp]: "split_on c s \<noteq> []"
  by (induction s) (auto split: list.splits)

lemma join_split_on: "join_with c (split_on c s) = s"
proof (induction s)
  case Nil
  show ?case by simp
next
  case (Cons x xs)
  obtain w ws where sp: "split_on c xs = w # ws"
    using split_on_not_Nil [of c xs] by (cases "split_on c xs") auto
  with Cons show ?case
    by (cases ws) auto
qed

lemma split_on_pieces: "w \<in> set (split_on c s) \<Longrightarrow> c \<notin> set w"
proof (induction s arbitrary: w)
  case Nil
  then show ?case by simp
next
  case (Cons x xs)
  obtain v vs where sp: "split_on c xs = v # vs"
    using split_on_not_Nil [of c xs] by (cases "split_on c xs") auto
  from Cons.prems Cons.IH sp show ?case
    by (auto split: if_splits)
qed

lemma endsWith_append [simp]: "endsWith (s @ suf) suf"
  by (simp add: endsWith_def)

section \<open>The \<open>/chunk\<close> request\<close>

text \<open>The object literal of \<open>handleChunk\<close> has 29 property assignments and 28 keys:
  the second assignment of \<open>semantic_threshold\<close> overwrites the first.\<close>

lemma literal_shape: "object_literal
     [(str ''doc_id'', v1),
      (str ''chunking_option'', v2),
      (str ''chunk_size'', v3),
      (str ''chunk_overlap'', v4),
      (str ''min_chunk_size'', v5),
      (str ''max_chunk_size'', v6),
      (str ''semantic_threshold'', v7),
      (str ''merge_empty_pages'', v8),
      (str ''merge_short_pages'', v9),
      (str ''max_page_words'', v10),
      (str ''min_page_words'', v11),
      (str ''paragraph_separator'', v12),
      (str ''sentence_separators'', v13),
      (str ''keep_separator'', v14),
      (str ''semantic_chunk_size'', v15),
      (str ''semantic_chunk_overlap'', v16),
      (str ''semantic_sentence_separators'', v17),
      (str ''semantic_keep_separator'', v18),
      (str ''semantic_threshold'', v19),
      (str ''semantic_min_chunk_size'', v20),
      (str ''semantic_max_chunk_size'', v21),
      (str ''hybrid_max_chunk_size'', v22),
      (str ''hybrid_min_chunk_size'', v23),
      (str ''hybrid_paragraph_separator'', v24),
      (str ''hybrid_sentence_separators'', v25),
      (str ''hybrid_chunk_size'', v26),
      (str ''hybrid_chunk_overlap'', v27),
      (str ''hybrid_keep_separator'', v28),
      (str ''hybrid_semantic_threshold'', v29)] =
     [(str ''doc_id'', v1),
      (str ''chunking_option'', v2),
      (str ''chunk_size'', v3),
      (str ''chunk_overlap'', v4),
      (str ''min_chunk_size'', v5),
      (str ''max_chunk_size'', v6),
      (str ''semantic_threshold'', v19),
      (str ''merge_empty_pages'', v8),
      (str ''merge_short_pages'', v9),
      (str ''max_page_words'', v10),
      (str ''min_page_words'', v11),
      (str ''paragraph_separator'', v12),
      (str ''sentence_separators'', v13),
      (str ''keep_separator'', v14),
      (str ''semantic_chunk_size'', v15),
      (str ''semantic_chunk_overlap'', v16),
      (str ''semantic_sentence_separators'', v17),
      (str ''semantic_keep_separator'', v18),
      (str ''semantic_min_chunk_size'', v20),
      (str ''semantic_max_chunk_size'', v21),
      (str ''hybrid_max_chunk_size'', v22),
      (str ''hybrid_min_chunk_size'', v23),
      (str ''hybrid_paragraph_separator'', v24),
      (str ''hybrid_sentence_separators'', v25),
      (str ''hybrid_chunk_size'', v26),
      (str ''hybrid_chunk_overlap'', v27),
      (str ''hybrid_keep_separator'', v28),
      (str ''hybrid_semantic_threshold'', v29)]"
  unfolding object_literal_def
  by simp

lemma handleChunk_request:
  "selectedDoc_C s \<noteq> [] \<Longrightarrow> chunkingOption s \<noteq> [] \<Longrightarrow>
   \<exists>evs. snd (handleChunk br s) = Fetch (POST_chunk (chunk_body s)) # evs"
  by (simp add: handleChunk_def Let_def split: sum.splits prod.splits)

lemma chunking_methods_nonempty: "m \<in> set chunking_methods \<Longrightarrow> m \<noteq> []"
  by (auto simp: chunking_methods_def str_def)

lemma body_paragraph_separator:
  "body_lookup s (str ''paragraph_separator'') =
     JStr (if paragraphSeparator s = str ''custom'' then customParagraphSeparator s
           else paragraphSeparator s)"
  by (simp add: body_lookup_def get_prop_def chunk_body_def literal_shape
      split del: if_split cong: if_cong)

lemma body_sentence_separators:
  "body_lookup s (str ''sentence_separators'') =
     JStrs (split_on bar (if sentenceSeparator s = str ''custom''
                          then customSentenceSeparator s else sentenceSeparator s))"
  by (simp add: body_lookup_def get_prop_def chunk_body_def literal_shape cong: if_cong)

lemma body_semantic_sentence_separators:
  "body_lookup s (str ''semantic_sentence_separators'') =
     JStrs (split_on bar (if semanticSentenceSeparator s = str ''custom''
                          then semanticCustomSentenceSeparator s
                          else semanticSentenceSeparator s))"
  by (simp add: body_lookup_def get_prop_def chunk_body_def literal_shape cong: if_cong)

lemma body_hybrid_paragraph_separator:
  "body_lookup s (str ''hybrid_paragraph_separator'') =
     JStr (if hybridParagraphSeparator s = str ''custom''
           then hybridCustomParagraphSeparator s else hybridParagraphSeparator s)"
  by (simp add: body_lookup_def get_prop_def chunk_body_def literal_shape
      split del: if_split cong: if_cong)

lemma body_hybrid_sentence_separators:
  "body_lookup s (str ''hybrid_sentence_separators'') =
     JStrs (split_on bar (if hybridSentenceSeparator s = str ''custom''
                          then hybridCustomSentenceSeparator s
                          else hybridSentenceSeparator s))"
  by (simp add: body_lookup_def get_prop_def chunk_body_def literal_shape cong: if_cong)

text \<open>
  Claim C1. Whichever of the six chunking methods is selected, \<open>handleChunk\<close> posts to
  \<open>/chunk\<close> a body whose five separator values are resolved from their preset selector:
  a selector equal to \<open>"custom"\<close> gives the custom text the operator typed, any other
  selector gives the preset itself; the two paragraph separators are sent as that
  string, the three sentence separators as the list of its pieces between \<open>'|'\<close>.
\<close>

theorem C1_separator_resolution:
  assumes "selectedDoc_C s \<noteq> []" and "chunkingOption s \<in> set chunking_methods"
  shows "(\<exists>evs. snd (handleChunk br s) = Fetch (POST_chunk (chunk_body s)) # evs) \<and>
    body_lookup s (str ''paragraph_separator'') =
      JStr (if paragraphSeparator s = str ''custom'' then customParagraphSeparator s
            else paragraphSeparator s) \<and>
    body_lookup s (str ''sentence_separators'') =
      JArr (map JStr (split_on bar (if sentenceSeparator s = str ''custom''
                           then customSentenceSeparator s else sentenceSeparator s))) \<and>
    body_lookup s (str ''semantic_sentence_separators'') =
      JArr (map JStr (split_on bar (if semanticSentenceSeparator s = str ''custom''
                           then semanticCustomSentenceSeparator s
                           else semanticSentenceSeparator s))) \<and>
    body_lookup s (str ''hybrid_paragraph_separator'') =
      JStr (if hybridParagraphSeparator s = str ''custom''
            then hybridCustomParagraphSeparator s else hybridParagraphSeparator s) \<and>
    body_lookup s (str ''hybrid_sentence_separators'') =
      JArr (map JStr (split_on bar (if hybridSentenceSeparator s = str ''custom''
                           then hybridCustomSentenceSeparator s
                           else hybridSentenceSeparator s)))"
proof -
  from assms(2) have "chunkingOption s \<noteq> []"
    by (rule chunking_methods_nonempty)
  with assms(1) have "\<exists>evs. snd (handleChunk br s) = Fetch (POST_chunk (chunk_body s)) # evs"
    by (rule handleChunk_request)
  then show ?thesis
    by (simp only: body_paragraph_separator body_sentence_separators
        body_semantic_sentence_separators body_hybrid_paragraph_separator
        body_hybrid_sentence_separators JStrs_def simp_thms)
qed

theorem C1_separator_resolution_witness:
  "(\<exists>evs. snd (handleChunk browser_offline chunk_example) =
       Fetch (POST_chunk (chunk_body chunk_example)) # evs) \<and>
    body_lookup chunk_example (str ''paragraph_separator'') = JStr (str ''x|y'') \<and>
    body_lookup chunk_example (str ''sentence_separators'') = JArr [JStr (str ''a''), JStr (str ''b'')] \<and>
    body_lookup chunk_example (str ''hybrid_paragraph_separator'') = JStr [0x0A, 0x0A] \<and>
    body_lookup chunk_example (str ''hybrid_sentence_separators'') =
      JArr [JStr [0x3002], JStr [0xFF01], JStr [0xFF1F]]"
  using C1_separator_resolution [of chunk_example browser_offline]
  by (simp add: chunk_example_def chunk_initial_def chunking_methods_def
      zh_sentence_preset_def str_def bar_def JStrs_def)

section \<open>Submitting, selecting and switching\<close>

lemma chunk_body_keys: "map fst (chunk_body s) =
   [str ''doc_id'', str ''chunking_option'', str ''chunk_size'', str ''chunk_overlap'',
    str ''min_chunk_size'', str ''max_chunk_size'', str ''semantic_threshold'',
    str ''merge_empty_pages'', str ''merge_short_pages'', str ''max_page_words'',
    str ''min_page_words'', str ''paragraph_separator'', str ''sentence_separators'',
    str ''keep_separator'', str ''semantic_chunk_size'', str ''semantic_chunk_overlap'',
    str ''semantic_sentence_separators'', str ''semantic_keep_separator'',
    str ''semantic_min_chunk_size'', str ''semantic_max_chunk_size'',
    str ''hybrid_max_chunk_size'', str ''hybrid_min_chunk_size'',
    str ''hybrid_paragraph_separator'', str ''hybrid_sentence_separators'',
    str ''hybrid_chunk_size'', str ''hybrid_chunk_overlap'', str ''hybrid_keep_separator'',
    str ''hybrid_semantic_threshold'']"
  by (simp add: chunk_body_def literal_shape)

lemma body_doc_id: "body_lookup s (str ''doc_id'') = JStr (docId s)"
  by (simp add: body_lookup_def get_prop_def chunk_body_def literal_shape)

lemma docId_suffix: "endsWith (docId s) (str ''.json'')"
  by (simp add: docId_def)

lemma variant_keys_in_body:
  "m \<in> set chunking_methods \<Longrightarrow> f \<in> set (variant_fields m) \<Longrightarrow>
   body_key f \<in> set (map fst (chunk_body s))"
  unfolding chunk_body_keys
  by (auto simp: chunking_methods_def variant_fields_def)

lemma body_chunking_option:
  "body_lookup s (str ''chunking_option'') = JStr (chunkingOption s)"
  by (simp add: body_lookup_def get_prop_def chunk_body_def literal_shape)

lemma body_plain_field:
  "f \<notin> set separator_fields \<Longrightarrow> body_lookup s (body_key f) = field_value f s"
  by (cases f)
    (simp_all add: separator_fields_def body_lookup_def get_prop_def chunk_body_def
      literal_shape)

text \<open>
  Claim C8. Every submission of the Chunk stage posts a body whose \<open>doc_id\<close> ends in
  \<open>.json\<close>: the selected name as it is when it already ends so, the name with
  \<open>.json\<close> appended once otherwise. The body has the same 28 keys whatever method is
  active, and among them is the key of every parameter field of each of the six
  variants. Under \<open>chunking_option\<close> it carries the selected method, under the key of
  every field that is not a separator the current value of that field, and under the
  five separator keys the resolved separators.
\<close>

theorem C8_chunk_request_body:
  assumes "selectedDoc_C s \<noteq> []" and "chunkingOption s \<noteq> []"
  shows "(\<exists>evs. snd (handleChunk br s) = Fetch (POST_chunk (chunk_body s)) # evs) \<and>
    body_lookup s (str ''doc_id'') = JStr (docId s) \<and>
    endsWith (docId s) (str ''.json'') \<and>
    (endsWith (selectedDoc_C s) (str ''.json'') \<longrightarrow> docId s = selectedDoc_C s) \<and>
    (\<not> endsWith (selectedDoc_C s) (str ''.json'') \<longrightarrow>
       docId s = selectedDoc_C s @ str ''.json'') \<and>
    map fst (chunk_body s) =
      [str ''doc_id'', str ''chunking_option'', str ''chunk_size'', str ''chunk_overlap'',
       str ''min_chunk_size'', str ''max_chunk_size'', str ''semantic_threshold'',
       str ''merge_empty_pages'', str ''merge_short_pages'', str ''max_page_words'',
       str ''min_page_words'', str ''paragraph_separator'', str ''sentence_separators'',
       str ''keep_separator'', str ''semantic_chunk_size'', str ''semantic_chunk_overlap'',
       str ''semantic_sentence_separators'', str ''semantic_keep_separator'',
       str ''semantic_min_chunk_size'', str ''semantic_max_chunk_size'',
       str ''hybrid_max_chunk_size'', str ''hybrid_min_chunk_size'',
       str ''hybrid_paragraph_separator'', str ''hybrid_sentence_separators'',
       str ''hybrid_chunk_size'', str ''hybrid_chunk_overlap'', str ''hybrid_keep_separator'',
       str ''hybrid_semantic_threshold''] \<and>
    (\<forall>m \<in> set chunking_methods. \<forall>f \<in> set (variant_fields m).
       body_key f \<in> set (map fst (chunk_body s))) \<and>
    body_lookup s (str ''chunking_option'') = JStr (chunkingOption s) \<and>
    (\<forall>f. f \<notin> set separator_fields \<longrightarrow> body_lookup s (body_key f) = field_value f s) \<and>
    body_lookup s (str ''paragraph_separator'') =
      JStr (if paragraphSeparator s = str ''custom'' then customParagraphSeparator s
            else paragraphSeparator s) \<and>
    body_lookup s (str ''sentence_separators'') =
      JArr (map JStr (split_on bar (if sentenceSeparator s = str ''custom''
                           then customSentenceSeparator s else sentenceSeparator s))) \<and>
    body_lookup s (str ''semantic_sentence_separators'') =
      JArr (map JStr (split_on bar (if semanticSentenceSeparator s = str ''custom''
                           then semanticCustomSentenceSeparator s
                           else semanticSentenceSeparator s))) \<and>
    body_lookup s (str ''hybrid_paragraph_separator'') =
      JStr (if hybridParagraphSeparator s = str ''custom''
            then hybridCustomParagraphSeparator s else hybridParagraphSeparator s) \<and>
    body_lookup s (str ''hybrid_sentence_separators'') =
      JArr (map JStr (split_on bar (if hybridSentenceSeparator s = str ''custom''
                           then hybridCustomSentenceSeparator s
                           else hybridSentenceSeparator s)))"
proof -
  have "\<exists>evs. snd (handleChunk br s) = Fetch (POST_chunk (chunk_body s)) # evs"
    using assms by (rule handleChunk_request)
  moreover have "\<forall>m \<in> set chunking_methods. \<forall>f \<in> set (variant_fields m).
       body_key f \<in> set (map fst (chunk_body s))"
    using variant_keys_in_body by blast
  moreover have "endsWith (selectedDoc_C s) (str ''.json'') \<longrightarrow> docId s = selectedDoc_C s"
    and "\<not> endsWith (selectedDoc_C s) (str ''.json'') \<longrightarrow>
       docId s = selectedDoc_C s @ str ''.json''"
    by (simp_all add: docId_def)
  moreover have "\<forall>f. f \<notin> set separator_fields \<longrightarrow>
       body_lookup s (body_key f) = field_value f s"
    using body_plain_field by blast
  ultimately show ?thesis
    using body_doc_id [of s] docId_suffix [of s] chunk_body_keys [of s]
      body_chunking_option [of s]
    by (simp only: body_paragraph_separator body_sentence_separators
        body_semantic_sentence_separators body_hybrid_paragraph_separator
        body_hybrid_sentence_separators JStrs_def simp_thms)
qed

theorem C8_chunk_request_body_witness:
  "(\<exists>evs. snd (handleChunk browser_offline chunk_example) =
       Fetch (POST_chunk (chunk_body chunk_example)) # evs) \<and>
   body_lookup chunk_example (str ''doc_id'') = JStr (str ''report.json'') \<and>
   docId (chunk_example\<lparr>selectedDoc_C := str ''report.json''\<rparr>) = str ''report.json'' \<and>
   body_key F_hybridSemanticThreshold \<in> set (map fst (chunk_body chunk_example)) \<and>
   body_lookup chunk_example (str ''chunking_option'') = JStr (str ''by_sentences'') \<and>
   body_lookup chunk_example (str ''chunk_size'') = JNum 1000 \<and>
   body_lookup chunk_example (str ''keep_separator'') = JBool False \<and>
   body_lookup chunk_example (str ''hybrid_semantic_threshold'') = JNum 0.7"
proof -
  have sel: "selectedDoc_C chunk_example \<noteq> []" and opt: "chunkingOption chunk_example \<noteq> []"
    by (simp_all add: chunk_example_def chunk_initial_def str_def)
  have hyb: "str ''hybrid'' \<in> set chunking_methods"
    by (simp add: chunking_methods_def)
  have fld: "F_hybridSemanticThreshold \<in> set (variant_fields (str ''hybrid''))"
    by (simp add: variant_fields_def)
  have d1: "docId chunk_example = str ''report.json''"
    by (simp add: docId_def endsWith_def chunk_example_def chunk_initial_def str_def)
  have d2: "docId (chunk_example\<lparr>selectedDoc_C := str ''report.json''\<rparr>) = str ''report.json''"
    by (simp add: docId_def endsWith_def chunk_example_def chunk_initial_def str_def)
  have plain: "F_chunkSize \<notin> set separator_fields" "F_keepSeparator \<notin> set separator_fields"
    "F_hybridSemanticThreshold \<notin> set separator_fields"
    by (simp_all add: separator_fields_def)
  have vals: "chunkingOption chunk_example = str ''by_sentences''"
    "field_value F_chunkSize chunk_example = JNum 1000"
    "field_value F_keepSeparator chunk_example = JBool False"
    "field_value F_hybridSemanticThreshold chunk_example = JNum 0.7"
    by (simp_all add: chunk_example_def chunk_initial_def)
  have keys: "body_key F_chunkSize = str ''chunk_size''"
    "body_key F_keepSeparator = str ''keep_separator''"
    "body_key F_hybridSemanticThreshold = str ''hybrid_semantic_threshold''"
    by simp_all
  from C8_chunk_request_body [OF sel opt, of browser_offline] hyb fld d1 d2 plain vals keys
  show ?thesis by metis
qed

text \<open>
  Claim C2, as amended. Switching the chunking method changes the method and nothing
  else: every parameter field, shared with the new variant or not, keeps its current
  value, and so do the selected document, the displayed result and the six other state
  variables of the page. No field is reset to its default.
\<close>

theorem C2_switch_keeps_every_field:
  "field_value f (setChunkingOption m s) = field_value f s \<and>
   chunkingOption (setChunkingOption m s) = m \<and>
   selectedDoc_C (setChunkingOption m s) = selectedDoc_C s \<and>
   chunks (setChunkingOption m s) = chunks s \<and>
   loadedDocuments (setChunkingOption m s) = loadedDocuments s \<and>
   chunkedDocuments (setChunkingOption m s) = chunkedDocuments s \<and>
   status_C (setChunkingOption m s) = status_C s \<and>
   processingStatus (setChunkingOption m s) = processingStatus s \<and>
   activeTab_C (setChunkingOption m s) = activeTab_C s \<and>
   showAdvancedOptions (setChunkingOption m s) = showAdvancedOptions s"
  by (cases f) (simp_all add: setChunkingOption_def)

theorem C2_switch_keeps_every_field_witness:
  "field_value F_chunkSize
     (setChunkingOption (str ''by_sentences'')
        (chunk_initial\<lparr>chunkingOption := str ''fixed_size''\<rparr>)) = JNum 1000 \<and>
   field_value F_chunkOverlap
     (setChunkingOption (str ''by_sentences'')
        (chunk_initial\<lparr>chunkingOption := str ''fixed_size''\<rparr>)) = JNum 200"
  using C2_switch_keeps_every_field [of F_chunkSize "str ''by_sentences''"
      "chunk_initial\<lparr>chunkingOption := str ''fixed_size''\<rparr>"]
    C2_switch_keeps_every_field [of F_chunkOverlap "str ''by_sentences''"
      "chunk_initial\<lparr>chunkingOption := str ''fixed_size''\<rparr>"]
  by (simp add: chunk_initial_def)

text \<open>
  Claim C2 as stated fails. \<open>minPageWords\<close> is a field of \<open>by_pages\<close> and not of
  \<open>fixed_size\<close>; set to 77 under \<open>by_pages\<close>, it is still 77 after the switch to
  \<open>fixed_size\<close>, not its default 50.
\<close>

theorem C2_counterexample:
  "chunkingOption chunk_initial = str ''by_pages'' \<and>
   F_minPageWords \<in> set (variant_fields (str ''by_pages'')) \<and>
   F_minPageWords \<notin> set (variant_fields (str ''fixed_size'')) \<and>
   field_value F_minPageWords
     (setChunkingOption (str ''fixed_size'') (chunk_initial\<lparr>minPageWords := 77\<rparr>)) \<noteq>
   field_value F_minPageWords chunk_initial"
  by (simp add: variant_fields_def setChunkingOption_def chunk_initial_def)

text \<open>
  Claim C3. On each of the three pages, submitting with no document or file selected,
  or with an empty method, issues no request and leaves the state as it was except for
  the status, which is set to the page's missing-selection message.
\<close>

theorem C3_missing_selection:
  "(selectedDoc_C cs = [] \<or> chunkingOption cs = [] \<longrightarrow>
      handleChunk br cs = (cs\<lparr>status_C := msg_select_doc_and_method\<rparr>, [])) \<and>
   (file_L ls = None \<or> loadingMethod_L ls = [] \<longrightarrow>
      handleProcess_L br ls = (ls\<lparr>status_L := msg_select_all\<rparr>, [])) \<and>
   (file_P ps = None \<or> loadingMethod_P ps = [] \<or> parsingOption ps = [] \<longrightarrow>
      handleProcess_P br ps = (ps\<lparr>status_P := msg_select_all\<rparr>, []))"
proof (intro conjI impI)
  assume "selectedDoc_C cs = [] \<or> chunkingOption cs = []"
  then show "handleChunk br cs = (cs\<lparr>status_C := msg_select_doc_and_method\<rparr>, [])"
    by (simp add: handleChunk_def)
next
  assume "file_L ls = None \<or> loadingMethod_L ls = []"
  then show "handleProcess_L br ls = (ls\<lparr>status_L := msg_select_all\<rparr>, [])"
    by (cases "file_L ls") (auto simp: handleProcess_L_def)
next
  assume "file_P ps = None \<or> loadingMethod_P ps = [] \<or> parsingOption ps = []"
  then show "handleProcess_P br ps = (ps\<lparr>status_P := msg_select_all\<rparr>, [])"
    by (cases "file_P ps") (auto simp: handleProcess_P_def)
qed

theorem C3_missing_selection_witness:
  "handleChunk browser_offline chunk_initial =
     (chunk_initial\<lparr>status_C := msg_select_doc_and_method\<rparr>, []) \<and>
   handleProcess_L browser_offline load_initial =
     (load_initial\<lparr>status_L := msg_select_all\<rparr>, []) \<and>
   handleProcess_P browser_offline (parse_ready\<lparr>parsingOption := []\<rparr>) =
     (parse_ready\<lparr>parsingOption := [], status_P := msg_select_all\<rparr>, [])"
  using C3_missing_selection [of chunk_initial browser_offline load_initial
      "parse_ready\<lparr>parsingOption := []\<rparr>"]
  by (simp add: chunk_initial_def load_initial_def parse_ready_def parse_initial_def)

text \<open>
  Claim C9 as stated fails: with a result on display, selecting another document
  leaves that result on display.
\<close>

theorem C9_counterexample:
  "chunks chunk_ready \<noteq> JNull \<and>
   chunks (setSelectedDoc_C (str ''b'') chunk_ready) \<noteq> JNull"
  by (simp add: setSelectedDoc_C_def chunk_ready_def)

lemma handleFileChange_method:
  "loadingMethod_L ls \<noteq> [] \<Longrightarrow> loadingMethod_L (handleFileChange br files ls) \<noteq> []"
  by (auto simp: handleFileChange_def Let_def str_def split: list.splits)

text \<open>
  Claim C9, as amended. Selecting an input document records the selection and leaves the
  displayed result unchanged. On the Chunk page the select sets \<open>selectedDoc\<close> and
  keeps the result, the method and every parameter field. On the Load page
  \<open>handleFileChange\<close> does nothing when no file was chosen; otherwise it sets \<open>file\<close>,
  sets \<open>fileType\<close> to the extension of the file name in lower case, sets the loading
  method to \<open>text\<close>, \<open>pymupdf\<close>, \<open>csv\<close> or \<open>md\<close> for the extensions \<open>txt\<close>,
  \<open>pdf\<close>, \<open>csv\<close> and \<open>md\<close> and keeps the method for any other extension, and
  keeps the result. With a method chosen, either page is then configured for
  submission.
\<close>

theorem C9_select_keeps_result:
  "chunks (setSelectedDoc_C d cs) = chunks cs \<and>
   selectedDoc_C (setSelectedDoc_C d cs) = d \<and>
   chunkingOption (setSelectedDoc_C d cs) = chunkingOption cs \<and>
   (\<forall>f. field_value f (setSelectedDoc_C d cs) = field_value f cs) \<and>
   (d \<noteq> [] \<and> chunkingOption cs \<noteq> [] \<longrightarrow> configured_C (setSelectedDoc_C d cs)) \<and>
   loadedContent (handleFileChange br files ls) = loadedContent ls \<and>
   (files = [] \<longrightarrow> handleFileChange br files ls = ls) \<and>
   (files \<noteq> [] \<longrightarrow>
      file_L (handleFileChange br files ls) = Some (hd files) \<and>
      fileType_L (handleFileChange br files ls) = Some (fileExt br (hd files)) \<and>
      loadingMethod_L (handleFileChange br files ls) =
        (if fileExt br (hd files) = str ''txt'' then str ''text''
         else if fileExt br (hd files) = str ''pdf'' then str ''pymupdf''
         else if fileExt br (hd files) = str ''csv'' then str ''csv''
         else if fileExt br (hd files) = str ''md'' then str ''md''
         else loadingMethod_L ls)) \<and>
   (files \<noteq> [] \<and> loadingMethod_L ls \<noteq> [] \<longrightarrow> configured_L (handleFileChange br files ls))"
proof -
  have chunk_page:
    "chunks (setSelectedDoc_C d cs) = chunks cs"
    "selectedDoc_C (setSelectedDoc_C d cs) = d"
    "chunkingOption (setSelectedDoc_C d cs) = chunkingOption cs"
    "d \<noteq> [] \<and> chunkingOption cs \<noteq> [] \<longrightarrow> configured_C (setSelectedDoc_C d cs)"
    by (simp_all add: setSelectedDoc_C_def configured_C_def)
  have fields: "field_value f (setSelectedDoc_C d cs) = field_value f cs" for f
    by (cases f) (simp_all add: setSelectedDoc_C_def)
  have result: "loadedContent (handleFileChange br files ls) = loadedContent ls"
    by (simp add: handleFileChange_def Let_def split: list.splits)
  have none: "files = [] \<longrightarrow> handleFileChange br files ls = ls"
    by (simp add: handleFileChange_def)
  have some: "files \<noteq> [] \<longrightarrow>
      file_L (handleFileChange br files ls) = Some (hd files) \<and>
      fileType_L (handleFileChange br files ls) = Some (fileExt br (hd files)) \<and>
      loadingMethod_L (handleFileChange br files ls) =
        (if fileExt br (hd files) = str ''txt'' then str ''text''
         else if fileExt br (hd files) = str ''pdf'' then str ''pymupdf''
         else if fileExt br (hd files) = str ''csv'' then str ''csv''
         else if fileExt br (hd files) = str ''md'' then str ''md''
         else loadingMethod_L ls)"
    by (cases files) (simp_all add: handleFileChange_def Let_def)
  have configured: "files \<noteq> [] \<and> loadingMethod_L ls \<noteq> [] \<longrightarrow>
      configured_L (handleFileChange br files ls)"
  proof
    assume chosen: "files \<noteq> [] \<and> loadingMethod_L ls \<noteq> []"
    with some have "file_L (handleFileChange br files ls) = Some (hd files)"
      by blast
    moreover from chosen have "loadingMethod_L (handleFileChange br files ls) \<noteq> []"
      by (simp add: handleFileChange_method)
    ultimately show "configured_L (handleFileChange br files ls)"
      by (simp add: configured_L_def)
  qed
  from chunk_page fields result none some configured show ?thesis
    by (simp only: simp_thms)
qed

theorem C9_select_keeps_result_witness:
  "chunks (setSelectedDoc_C (str ''b'') chunk_ready) = chunks chunk_ready \<and>
   configured_C (setSelectedDoc_C (str ''b'') chunk_ready) \<and>
   loadedContent (handleFileChange browser_offline [text_file] load_ready) =
     loadedContent load_ready \<and>
   file_L (handleFileChange browser_offline [text_file] load_ready) = Some text_file \<and>
   fileType_L (handleFileChange browser_offline [text_file] load_ready) = Some (str ''txt'') \<and>
   loadingMethod_L (handleFileChange browser_offline [text_file] load_ready) = str ''text'' \<and>
   configured_L (handleFileChange browser_offline [text_file] load_ready)"
proof -
  have ext: "fileExt browser_offline text_file = str ''txt''"
    by (simp add: fileExt_def browser_offline_def text_file_def ascii_lower_def str_def)
  have pre: "str ''b'' \<noteq> []" "chunkingOption chunk_ready \<noteq> []" "[text_file] \<noteq> []"
    "loadingMethod_L load_ready \<noteq> []"
    by (simp_all add: chunk_ready_def chunk_initial_def load_ready_def load_initial_def str_def)
  from C9_select_keeps_result [of "str ''b''" chunk_ready browser_offline "[text_file]"
      load_ready] ext pre
  show ?thesis by simp
qed

text \<open>
  Claim C10. On each of the three pages a submission that passes the selection test
  clears the displayed result before its single request; when that request fails the
  result stays cleared, whatever was displayed before.
\<close>

theorem C10_failed_submit_clears_result:
  "(configured_C cs \<and> request_fails br (POST_chunk (chunk_body cs)) \<longrightarrow>
      chunks (fst (handleChunk br cs)) = JNull \<and>
      snd (handleChunk br cs) = [Fetch (POST_chunk (chunk_body cs))]) \<and>
   (file_L ls = Some f \<and> loadingMethod_L ls \<noteq> [] \<and>
    request_fails br (POST_load (formData_L f ls)) \<longrightarrow>
      loadedContent (fst (handleProcess_L br ls)) = JNull \<and>
      snd (handleProcess_L br ls) = [Fetch (POST_load (formData_L f ls))]) \<and>
   (file_P ps = Some g \<and> loadingMethod_P ps \<noteq> [] \<and> parsingOption ps \<noteq> [] \<and>
    request_fails br (POST_parse (formData_P g ps)) \<longrightarrow>
      parsedContent (fst (handleProcess_P br ps)) = JNull \<and>
      snd (handleProcess_P br ps) = [Fetch (POST_parse (formData_P g ps))])"
proof (intro conjI impI)
  assume "configured_C cs \<and> request_fails br (POST_chunk (chunk_body cs))"
  then show "chunks (fst (handleChunk br cs)) = JNull"
    and "snd (handleChunk br cs) = [Fetch (POST_chunk (chunk_body cs))]"
    by (auto simp: configured_C_def request_fails_def handleChunk_def chunk_failed_def Let_def
        split: sum.splits)
next
  assume "file_L ls = Some f \<and> loadingMethod_L ls \<noteq> [] \<and>
    request_fails br (POST_load (formData_L f ls))"
  then show "loadedContent (fst (handleProcess_L br ls)) = JNull"
    and "snd (handleProcess_L br ls) = [Fetch (POST_load (formData_L f ls))]"
    by (auto simp: request_fails_def handleProcess_L_def load_failed_def Let_def
        split: sum.splits)
next
  assume "file_P ps = Some g \<and> loadingMethod_P ps \<noteq> [] \<and> parsingOption ps \<noteq> [] \<and>
    request_fails br (POST_parse (formData_P g ps))"
  then show "parsedContent (fst (handleProcess_P br ps)) = JNull"
    and "snd (handleProcess_P br ps) = [Fetch (POST_parse (formData_P g ps))]"
    by (auto simp: request_fails_def handleProcess_P_def parse_failed_def Let_def
        split: sum.splits)
qed

theorem C10_failed_submit_clears_result_witness:
  "chunks chunk_ready \<noteq> JNull \<and>
   chunks (fst (handleChunk browser_offline chunk_ready)) = JNull \<and>
   loadedContent (fst (handleProcess_L browser_offline load_ready)) = JNull \<and>
   parsedContent (fst (handleProcess_P browser_offline parse_ready)) = JNull"
  using C10_failed_submit_clears_result [of chunk_ready browser_offline load_ready example_file
      parse_ready example_file]
  by (simp add: configured_C_def request_fails_def browser_offline_def chunk_ready_def
      chunk_initial_def load_ready_def load_initial_def parse_ready_def parse_initial_def
      str_def)

section \<open>Previews, failures and the registry\<close>

text \<open>The list requests: what they issue, and that they leave the result alone.\<close>

lemma fetchDocuments_events: "snd (fetchDocuments br s) = [Fetch (GET_documents (str ''loaded''))]"
  by (simp add: fetchDocuments_def Let_def split: sum.splits)

lemma fetchDocuments_result: "loadedContent (fst (fetchDocuments br s)) = loadedContent s"
  by (simp add: fetchDocuments_def Let_def split: sum.splits)

lemma fetchLoadedDocuments_events:
  "\<exists>evs. snd (fetchLoadedDocuments br s) = Fetch (GET_documents (str ''loaded'')) # evs"
  by (simp add: fetchLoadedDocuments_def Let_def split: sum.splits json.splits)

lemma fetchLoadedDocuments_result: "chunks (fst (fetchLoadedDocuments br s)) = chunks s"
  by (simp add: fetchLoadedDocuments_def fetch_error_C_def Let_def split: sum.splits json.splits)


text \<open>
  Claim C4, evaluated. For a result without its segments field the Load page's preview
  throws (also when \<open>chunks\<close> is a string); the Chunk page's preview shows an empty
  list and no notice; the Parse page's preview shows the empty-state notice.
\<close>

theorem C4_load_preview_throws:
  "renderRightPanel_L result_without_segments = Threw \<and>
   renderRightPanel_L (JObj [(str ''chunks'', JStr (str ''oops''))]) = Threw \<and>
   renderRightPanel_C result_without_segments = Segments [] \<and>
   renderPreview_P result_without_segments = EmptyState"
  by (simp add: renderRightPanel_L_def renderRightPanel_C_def renderPreview_P_def
      info_L_def info_C_def info_P_def date_ok_def result_without_segments_def
      get_prop_def nullish_def Let_def)

text \<open>The same for every result whose segments field is not an array: the Load page
  throws, the other two pages throw only when the document information does.\<close>

lemma preview_L_not_array:
  "truthy r \<Longrightarrow> \<not> isArray (get_prop r (str ''chunks'')) \<Longrightarrow> renderRightPanel_L r = Threw"
  by (cases "get_prop r (str ''chunks'')") (simp_all add: renderRightPanel_L_def)

lemma preview_C_not_array:
  "truthy r \<Longrightarrow> \<not> isArray (get_prop r (str ''chunks'')) \<Longrightarrow>
   renderRightPanel_C r = (if info_C r then Segments [] else Threw)"
  by (cases "get_prop r (str ''chunks'')") (simp_all add: renderRightPanel_C_def)

lemma preview_P_not_array:
  "truthy r \<Longrightarrow> \<not> isArray (get_prop r (str ''content'')) \<Longrightarrow>
   renderPreview_P r = (if info_P r then EmptyState else Threw)"
  by (cases "get_prop r (str ''content'')") (simp_all add: renderPreview_P_def)

text \<open>An object among the values of the document information makes the Parse page's
  preview throw, with or without segments.\<close>

lemma preview_P_object_child:
  "renderPreview_P (JObj [(str ''metadata'', JObj [(str ''total_pages'', JObj [])])]) = Threw"
  by (simp add: renderPreview_P_def info_P_def get_prop_def nullish_def Let_def)

text \<open>A \<open>null\<close> entry in the list of chunked documents makes its callback reject
  without a request; the list is then not stored.\<close>

lemma chunked_detail_null:
  "chunked_detail br JNull = (Inl (nullRead br JNull (str ''name'')), [])"
  by (simp add: chunked_detail_def nullish_def)

text \<open>
  Claim C5, evaluated. The server answers 422 with a \<open>detail\<close>: the Chunk and Parse
  pages store the error prefix and \<open>HTTP error! status: 422\<close>, without the detail; the
  Load page stores the error prefix and the detail.
\<close>

theorem C5_detail_dropped:
  "status_C (fst (handleChunk browser_rejected chunk_example)) =
     msg_error @ str ''HTTP error! status: 422'' \<and>
   status_P (fst (handleProcess_P browser_rejected parse_ready)) =
     msg_error @ str ''HTTP error! status: 422'' \<and>
   status_L (fst (handleProcess_L browser_rejected load_ready)) =
     msg_error @ str ''Document not found''"
  by (simp add: handleChunk_def handleProcess_P_def handleProcess_L_def browser_rejected_def
      server_error_def ok_def chunk_failed_def parse_failed_def load_failed_def
      chunk_example_def chunk_initial_def parse_ready_def parse_initial_def load_ready_def
      load_initial_def http_error_def show_nat.simps get_prop_def nullish_def str_def
      msg_error_def Let_def)

text \<open>On the Chunk page the stored message of a refused submission depends on the
  status alone, and the refused request is the only one.\<close>

lemma failed_submit_status:
  "configured_C cs \<Longrightarrow> fetch br (POST_chunk (chunk_body cs)) = Inr r \<Longrightarrow> \<not> ok r \<Longrightarrow>
     handleChunk br cs =
       (cs\<lparr>status_C := msg_error @ http_error (resp_status r), chunks := JNull\<rparr>,
        [Fetch (POST_chunk (chunk_body cs))])"
  by (simp add: configured_C_def handleChunk_def chunk_failed_def Let_def)

text \<open>On the Load page a refused submission stores the server's \<open>detail\<close>, when that is
  a non-empty string that does not mention CSV.\<close>

lemma load_detail_stored:
  assumes "file_L ls = Some f" and "loadingMethod_L ls \<noteq> []"
    and "fetch br (POST_load (formData_L f ls)) = Inr r" and "\<not> ok r"
    and "resp_json r = Inr errorData" and "get_prop errorData (str ''detail'') = JStr d"
    and "d \<noteq> []" and "\<not> includes_js d (str ''CSV'')"
  shows "handleProcess_L br ls =
     (ls\<lparr>status_L := msg_error @ d, loadedContent := JNull\<rparr>,
      [Fetch (POST_load (formData_L f ls))])"
proof -
  have "\<not> nullish errorData"
    using assms(6) by (auto simp: nullish_def get_prop_def)
  then show ?thesis
    using assms by (simp add: handleProcess_L_def load_failed_def Let_def)
qed

text \<open>
  Claim C6, evaluated. On the Parse page and on the Chunk page, the artifact \<open>a\<close> is
  opened from the list and then deleted: the result on display after the delete is
  still \<open>a\<close>'s. So it is on the Parse page when the operator returns to the
  management tab, which fetches the list, before deleting.
\<close>

theorem C6_delete_keeps_displayed_result:
  "parsedContent (fst (handleViewParsed browser_serving (str ''a'') parse_listed)) =
     parsed_doc_a \<and>
   parsedContent (fst (handleDeleteParsed browser_serving (str ''a'')
     (fst (handleViewParsed browser_serving (str ''a'') parse_listed)))) = parsed_doc_a \<and>
   chunks (fst (handleViewDocument_C browser_serving (str ''a'') chunk_initial)) =
     chunked_doc_a \<and>
   chunks (fst (handleDeleteDocument_C browser_serving (str ''a'')
     (fst (handleViewDocument_C browser_serving (str ''a'') chunk_initial)))) = chunked_doc_a \<and>
   parsedContent (fst (handleDeleteParsed browser_serving (str ''a'')
     (fst (setTab browser_serving (str ''manage'')
       (fst (handleViewParsed browser_serving (str ''a'') parse_listed)))))) = parsed_doc_a \<and>
   parsedDocs (fst (handleDeleteParsed browser_serving (str ''a'')
     (fst (setTab browser_serving (str ''manage'')
       (fst (handleViewParsed browser_serving (str ''a'') parse_listed)))))) =
     JArr [JObj [(str ''name'', JStr (str ''b''))]]"
  by (simp add: handleViewParsed_def handleDeleteParsed_def handleViewDocument_C_def
      handleDeleteDocument_C_def fetchLoadedDocuments_def setTab_def fetchParsedDocs_def
      browser_serving_def serve_def ok_def parse_listed_def parse_initial_def
      chunk_initial_def without_name_def get_prop_def nullish_def str_def Let_def
      split: prod.splits)

text \<open>On the Load page a successful delete of the document that \<open>selectedDoc\<close> names
  clears the displayed result.\<close>

lemma load_delete_clears_viewed:
  assumes "fetch br (DELETE_document n) = Inr r" and "ok r"
    and "get_prop (selectedDoc_L ls) (str ''name'') = JStr n"
  shows "loadedContent (fst (handleDeleteDocument_L br n ls)) = JNull"
proof -
  have "\<not> nullish (selectedDoc_L ls)"
    using assms(3) by (auto simp: nullish_def get_prop_def)
  then show ?thesis
    using assms
    by (simp add: handleDeleteDocument_L_def Let_def case_prod_beta fetchDocuments_result)
qed

text \<open>
  Claim C7, evaluated. On the Parse page a confirmed delete issues the DELETE request
  and no list request, and the list in state is the old list without the deleted name;
  a successful submission on the management tab issues the \<open>/parse\<close> request alone.
\<close>

theorem C7_parse_list_not_refetched:
  "snd (handleDeleteParsed browser_serving (str ''a'') parse_listed) =
     [Confirm (msg_confirm_delete (str ''a'')), Fetch (DELETE_parsed_doc (str ''a''))] \<and>
   parsedDocs (fst (handleDeleteParsed browser_serving (str ''a'') parse_listed)) =
     JArr [JObj [(str ''name'', JStr (str ''b''))]] \<and>
   snd (handleProcess_P browser_serving (parse_ready\<lparr>tab := str ''manage''\<rparr>)) =
     [Fetch (POST_parse (formData_P example_file (parse_ready\<lparr>tab := str ''manage''\<rparr>)))] \<and>
   parsedContent (fst (handleProcess_P browser_serving (parse_ready\<lparr>tab := str ''manage''\<rparr>))) =
     parsed_doc_a"
  by (simp add: handleDeleteParsed_def handleProcess_P_def browser_serving_def serve_def ok_def
      parse_listed_def parse_ready_def parse_initial_def without_name_def get_prop_def
      nullish_def str_def Let_def)

text \<open>On the Chunk page a successful submission goes on to the list requests.\<close>

lemma chunk_submit_refreshes:
  "configured_C cs \<Longrightarrow> fetch br (POST_chunk (chunk_body cs)) = Inr r \<Longrightarrow> ok r \<Longrightarrow>
   resp_json r = Inr data \<Longrightarrow> \<not> nullish data \<Longrightarrow>
   \<exists>evs. snd (handleChunk br cs) =
     Fetch (POST_chunk (chunk_body cs)) # Fetch (GET_documents (str ''loaded'')) # evs"
  by (simp add: configured_C_def handleChunk_def fetchLoadedDocuments_def Let_def
      split: sum.splits prod.splits json.splits)

text \<open>The Load page re-issues its list request after a successful submission and after a
  successful delete, the Chunk page after a successful delete; the Parse page fetches its
  list when the management tab is entered.\<close>

lemma load_submit_refreshes:
  assumes "file_L ls = Some f" and "loadingMethod_L ls \<noteq> []"
    and "fetch br (POST_load (formData_L f ls)) = Inr r" and "ok r"
    and "resp_json r = Inr data" and "\<not> nullish data"
  shows "snd (handleProcess_L br ls) =
     [Fetch (POST_load (formData_L f ls)), Fetch (GET_documents (str ''loaded''))]"
  using assms
  by (simp add: handleProcess_L_def Let_def case_prod_beta fetchDocuments_events)

lemma load_delete_refreshes:
  assumes "fetch br (DELETE_document n) = Inr r" and "ok r"
  shows "snd (handleDeleteDocument_L br n ls) =
     [Fetch (DELETE_document n), Fetch (GET_documents (str ''loaded''))]"
  using assms
  by (simp add: handleDeleteDocument_L_def Let_def case_prod_beta fetchDocuments_events)

lemma chunk_delete_refreshes:
  assumes "fetch br (DELETE_document_chunked n) = Inr r" and "ok r"
  shows "\<exists>evs. snd (handleDeleteDocument_C br n cs) =
     Fetch (DELETE_document_chunked n) # Fetch (GET_documents (str ''loaded'')) # evs"
proof -
  define s2 where "s2 = (if selectedDoc_C cs = n
      then cs\<lparr>processingStatus := msg_deleted, selectedDoc_C := [], chunks := JNull\<rparr>
      else cs\<lparr>processingStatus := msg_deleted\<rparr>)"
  have "snd (handleDeleteDocument_C br n cs) =
      Fetch (DELETE_document_chunked n) # snd (fetchLoadedDocuments br s2)"
    using assms by (simp add: handleDeleteDocument_C_def Let_def case_prod_beta s2_def)
  then show ?thesis
    using fetchLoadedDocuments_events [of br s2] by auto
qed

lemma setTab_manage_fetches:
  "tab ps \<noteq> str ''manage'' \<Longrightarrow>
   snd (setTab br (str ''manage'') ps) = [Fetch GET_parsed_docs]"
  by (simp add: setTab_def fetchParsedDocs_def Let_def split: sum.splits)

end
